theory Spec2Isabelle
  imports Main "HOL-Library.Word"
begin

section \<open>PyMDB graph loader: wire framing, session lifecycle and batch decoding\<close>

text \<open>
  The development embeds \<^verbatim>\<open>src/pymdb/graph_loader.py\<close>. The module imports
  collaborators whose code is not part of the sources at hand: \<^verbatim>\<open>protocol\<close>
  (the enumerations \<^verbatim>\<open>RequestType\<close> and \<^verbatim>\<open>StatusCode\<close>), \<^verbatim>\<open>utils.packer\<close> and
  \<^verbatim>\<open>utils.decorators\<close> (the wire codec and the closed-session guard) and
  \<^verbatim>\<open>mdb_client.MDBClient\<close> (the transport). They are modelled from the specification,
  each under a comment that says so; everything else follows the Python text.
\<close>

subsection \<open>Values, exceptions and the message catalog\<close>

type_synonym byte = "8 word"
type_synonym bytes = "byte list"

text \<open>
  A Python \<^verbatim>\<open>str\<close> is a sequence of Unicode code points, and \<^verbatim>\<open>len\<close> counts code
  points, not encoded bytes.
\<close>

type_synonym py_str = "nat list"

text \<open>
  Modelled from the spec: \<^verbatim>\<open>protocol.RequestType\<close> is missing. Section 4.2 lists the
  six opcodes, "one byte each, values implementation-defined but fixed across client and
  server"; the names are the ones the source uses. The byte value of each opcode is a
  parameter (\<open>request_value\<close> below).
\<close>

datatype RequestType =
    GRAPH_LOADER_NEXT
  | GRAPH_LOADER_BEGIN
  | GRAPH_LOADER_CLOSE
  | EVAL_GRAPH_LOADER_NEW
  | SAMPLING_GRAPH_LOADER_NEW
  | TRAIN_GRAPH_LOADER_NEW

text \<open>
  Modelled from the spec: \<^verbatim>\<open>protocol.StatusCode\<close> is missing. Section 4.2: "a
  normal-completion code, an END_OF_ITERATION code [...] and space for server-defined
  error codes".
\<close>

datatype StatusCode =
    NORMAL_COMPLETION
  | END_OF_ITERATION
  | SERVER_DEFINED nat

text \<open>
  Every \<^verbatim>\<open>raise\<close> of the source and of its collaborators is a value of \<open>exn\<close>.
  \<open>ValueError\<close> carries the message of the source. \<open>StructError\<close> is the failure of
  an encoder or decoder, \<open>RuntimeError\<close> and \<open>TypeError\<close> the failures of a tensor
  operation,
  \<open>InvalidStateError\<close> the failure of the closed-session guard, \<open>ServerError\<close> a
  status code reported by the server and \<open>TransportError\<close> a failure of the channel.
\<close>

datatype exn =
    ValueError string
  | InvalidStateError
  | StopIteration
  | ServerError StatusCode
  | TransportError
  | StructError
  | UnicodeEncodeError
  | RuntimeError
  | TypeError

text \<open>
  The parameters the specification leaves open: the byte value of each opcode, and the
  byte order of the "one consistent fixed-width encoding" of section 2 (the width is
  fixed, the order of the bytes is not stated).
\<close>

record protocol =
  request_value :: "RequestType \<Rightarrow> byte"
  big_endian :: bool

subsection \<open>Wire codec\<close>

text \<open>
  Fixed-width unsigned integers: \<open>be_bytes n v\<close> is the \<open>n\<close>-byte big-endian
  representation of \<open>v\<close>, \<open>be_value\<close> reads one back.
\<close>

definition be_bytes :: "nat \<Rightarrow> int \<Rightarrow> bytes" where
  "be_bytes n v = map (\<lambda>i. word_of_int (v div 256 ^ i)) (rev [0..<n])"

definition be_value :: "bytes \<Rightarrow> int" where
  "be_value bs = foldl (\<lambda>acc b. acc * 256 + uint b) 0 bs"

definition fixed_bytes :: "protocol \<Rightarrow> nat \<Rightarrow> int \<Rightarrow> bytes" where
  "fixed_bytes P n v = (if big_endian P then be_bytes n v else rev (be_bytes n v))"

definition fixed_value :: "protocol \<Rightarrow> bytes \<Rightarrow> int" where
  "fixed_value P bs = be_value (if big_endian P then bs else rev bs)"

text \<open>
  Modelled from the spec: \<^verbatim>\<open>utils.packer\<close> is missing. Section 2: "primitive
  encode/decode operations for a byte, a 64-bit unsigned integer, a vector of 64-bit
  unsigned integers, a UTF-8 byte string, and a vector of 32-bit floats, over a flat byte
  buffer. No padding, no alignment". An encoder given a value that is no unsigned 64-bit
  integer (out of range, or \<^verbatim>\<open>None\<close>) fails, and so does a decoder given a buffer whose
  length is not the width of what it decodes.
\<close>

definition pack_byte :: "byte \<Rightarrow> bytes" where
  "pack_byte b = [b]"

definition pack_uint64 :: "protocol \<Rightarrow> int \<Rightarrow> exn + bytes" where
  "pack_uint64 P v =
     (if 0 \<le> v \<and> v < 2 ^ 64 then Inr (fixed_bytes P 8 v) else Inl StructError)"

definition pack_uint64_opt :: "protocol \<Rightarrow> int option \<Rightarrow> exn + bytes" where
  "pack_uint64_opt P x = (case x of None \<Rightarrow> Inl StructError | Some v \<Rightarrow> pack_uint64 P v)"

fun pack_uint64_vector :: "protocol \<Rightarrow> int list \<Rightarrow> exn + bytes" where
  "pack_uint64_vector P [] = Inr []"
| "pack_uint64_vector P (v # vs) =
     (case pack_uint64 P v of
        Inl e \<Rightarrow> Inl e
      | Inr b \<Rightarrow>
          (case pack_uint64_vector P vs of
             Inl e \<Rightarrow> Inl e
           | Inr bs \<Rightarrow> Inr (b @ bs)))"

text \<open>UTF-8 of one code point; surrogates and values beyond U+10FFFF have none.\<close>

definition utf8_code_point :: "nat \<Rightarrow> exn + bytes" where
  "utf8_code_point c =
     (if c < 0x80 then Inr [of_nat c]
      else if c < 0x800 then Inr [of_nat (0xC0 + c div 64), of_nat (0x80 + c mod 64)]
      else if c < 0x10000 then
        (if 0xD800 \<le> c \<and> c \<le> 0xDFFF then Inl UnicodeEncodeError
         else Inr [of_nat (0xE0 + c div 4096), of_nat (0x80 + c div 64 mod 64),
                   of_nat (0x80 + c mod 64)])
      else if c < 0x110000 then
        Inr [of_nat (0xF0 + c div 262144), of_nat (0x80 + c div 4096 mod 64),
             of_nat (0x80 + c div 64 mod 64), of_nat (0x80 + c mod 64)]
      else Inl UnicodeEncodeError)"

fun pack_string :: "py_str \<Rightarrow> exn + bytes" where
  "pack_string [] = Inr []"
| "pack_string (c # cs) =
     (case utf8_code_point c of
        Inl e \<Rightarrow> Inl e
      | Inr b \<Rightarrow>
          (case pack_string cs of
             Inl e \<Rightarrow> Inl e
           | Inr bs \<Rightarrow> Inr (b @ bs)))"

definition unpack_uint64 :: "protocol \<Rightarrow> bytes \<Rightarrow> exn + int" where
  "unpack_uint64 P data =
     (if length data = 8 then Inr (fixed_value P data) else Inl StructError)"

text \<open>
  The vector decoders take the buffer alone, so the number of elements is the buffer's
  length divided by the element width. Element \<open>i\<close> is read from the bytes
  \<open>i * w ..< (i + 1) * w\<close>.
\<close>

definition unpack_vector :: "protocol \<Rightarrow> nat \<Rightarrow> bytes \<Rightarrow> exn + int list" where
  "unpack_vector P w data =
     (if length data mod w \<noteq> 0 then Inl StructError
      else Inr (map (\<lambda>i. fixed_value P (take w (drop (i * w) data)))
                  [0..<length data div w]))"

definition unpack_uint64_vector :: "protocol \<Rightarrow> bytes \<Rightarrow> exn + int list" where
  "unpack_uint64_vector P data = unpack_vector P 8 data"

text \<open>
  A 32-bit float is carried as its bit pattern: the source does no arithmetic on the
  features, it moves them from the buffer into the tensor.
\<close>

definition unpack_float_vector :: "protocol \<Rightarrow> bytes \<Rightarrow> exn + 32 word list" where
  "unpack_float_vector P data =
     (case unpack_vector P 4 data of
        Inl e \<Rightarrow> Inl e
      | Inr vs \<Rightarrow> Inr (map word_of_int vs))"

text \<open>
  Python's \<^verbatim>\<open>data[lo:hi]\<close>: a negative index counts from the end, each index is
  clamped to the buffer, and a slice never fails.
\<close>

definition py_slice :: "'a list \<Rightarrow> int \<Rightarrow> int \<Rightarrow> 'a list" where
  "py_slice xs lo hi =
     (let n = int (length xs);
          clamp = (\<lambda>i. if i < 0 then max 0 (n + i) else min i n);
          l = clamp lo;
          h = clamp hi
      in take (nat (h - l)) (drop (nat l) xs))"

subsection \<open>Tensors\<close>

text \<open>
  The tensor library is external. A tensor is its shape and its elements in row-major
  order; element \<open>(i, j)\<close> of a matrix with \<open>c\<close> columns is element \<open>i * c + j\<close> of the
  storage. \<^verbatim>\<open>torch.tensor(data=xs)\<close> of a flat list is the one-dimensional tensor of its
  elements. \<^verbatim>\<open>reshape(r, c)\<close> takes sizes that fit a signed 64-bit integer and raises
  \<^verbatim>\<open>TypeError\<close> for a larger one; it raises \<^verbatim>\<open>RuntimeError\<close> unless the product of the
  sizes is the number of elements. (Both arguments come from \<open>unpack_uint64\<close> in the
  source and are never negative.)
\<close>

record 'a tensor =
  shape :: "int list"
  storage :: "'a list"

definition torch_tensor :: "'a list \<Rightarrow> 'a tensor" where
  "torch_tensor xs = \<lparr>shape = [int (length xs)], storage = xs\<rparr>"

definition reshape :: "'a tensor \<Rightarrow> int \<Rightarrow> int \<Rightarrow> exn + 'a tensor" where
  "reshape t r c =
     (if 2 ^ 63 \<le> r \<or> 2 ^ 63 \<le> c then Inl TypeError
      else if r < 0 \<or> c < 0 \<or> r * c \<noteq> int (length (storage t)) then Inl RuntimeError
      else Inr (t\<lparr>shape := [r, c]\<rparr>))"

definition tensor_at :: "'a tensor \<Rightarrow> nat \<Rightarrow> nat \<Rightarrow> 'a" where
  "tensor_at t i j = storage t ! (i * nat (shape t ! 1) + j)"

text \<open>
  \<^verbatim>\<open>torch.tensor(data=xs, dtype=torch.int64)\<close> of a list of Python integers: each
  element is stored as a signed 64-bit integer, and the call raises when an element does
  not fit. The decoders hand over unsigned values, so every element from \<open>2 ^ 63\<close> on
  makes it raise; the header note of the source (the unsigned vectors "are parsed as
  int64 vectors due the lack of the uint64 dtype") names the cause. An element of the
  tensor is the 64-bit word, which \<open>sint\<close> reads as the library does.
\<close>

definition torch_tensor_int64 :: "int list \<Rightarrow> exn + 64 word tensor" where
  "torch_tensor_int64 xs =
     (if list_all (\<lambda>x. - (2 ^ 63) \<le> x \<and> x < 2 ^ 63) xs
      then Inr (torch_tensor (map word_of_int xs))
      else Inl RuntimeError)"

subsection \<open>Transport\<close>

text \<open>
  Modelled from the spec: \<^verbatim>\<open>mdb_client.MDBClient\<close> is missing. Section 2: "a
  bidirectional byte channel providing blocking send and blocking receive-with-status".
  The client is the log of the messages sent (\<open>outbox\<close>, oldest first) and the replies
  the server will give (\<open>inbox\<close>), each a payload with its status code. A send or a
  receive on a lost connection, and a receive with no reply to come, fail with the
  transport error of section 7.

  Status validation is the receive's: section 4.4 has the reply of \<^verbatim>\<open>BEGIN\<close>
  "consumed and discarded beyond status validation" where the source's \<^verbatim>\<open>_begin\<close>
  does nothing but call \<^verbatim>\<open>_recv\<close>, and section 7 has "any status code other than
  normal-completion or end-of-iteration [...] propagated to the caller as a failure
  carrying the status code". The reply is consumed either way.
\<close>

record MDBClient =
  connected :: bool
  outbox :: "bytes list"
  inbox :: "(bytes \<times> StatusCode) list"

definition priv_send :: "MDBClient \<Rightarrow> bytes \<Rightarrow> (exn + unit) \<times> MDBClient" where
  "priv_send c msg =
     (if connected c then (Inr (), c\<lparr>outbox := outbox c @ [msg]\<rparr>)
      else (Inl TransportError, c))"

definition priv_recv :: "MDBClient \<Rightarrow> (exn + bytes \<times> StatusCode) \<times> MDBClient" where
  "priv_recv c =
     (if \<not> connected c then (Inl TransportError, c)
      else
        (case inbox c of
           [] \<Rightarrow> (Inl TransportError, c)
         | (data, code) # rest \<Rightarrow>
             (if code = NORMAL_COMPLETION \<or> code = END_OF_ITERATION
              then (Inr (data, code), c\<lparr>inbox := rest\<rparr>)
              else (Inl (ServerError code), c\<lparr>inbox := rest\<rparr>))))"

subsection \<open>The decoded batch\<close>

text \<open>The class \<^verbatim>\<open>Graph\<close>: six fields, set by the constructor as given.\<close>

record Graph =
  node_features :: "32 word tensor"
  node_labels :: "64 word tensor"
  edge_index :: "64 word tensor"
  node_ids :: "int list"
  num_seeds :: int
  feature_size :: int

subsection \<open>The abstract loader\<close>

text \<open>
  The attributes of \<^verbatim>\<open>GraphLoader\<close>. A leading underscore of the source is written
  \<open>priv_\<close>. The attribute \<^verbatim>\<open>client\<close> is a reference to the shared transport; its
  state is passed to every method that uses it and returned with the result, also when
  the method raises. The subclasses extend the record.
\<close>

record GraphLoader =
  tensor_store_name :: py_str
  batch_size :: int
  num_neighbors :: "int list"
  priv_graph_loader_id :: "int option"
  priv_size :: "int option"
  priv_closed :: bool

text \<open>\<^verbatim>\<open>GraphLoader.__init__\<close>: no use of the client beyond storing the reference.\<close>

definition GraphLoader_init :: "py_str \<Rightarrow> int \<Rightarrow> int list \<Rightarrow> exn + GraphLoader" where
  "GraphLoader_init name bs nn =
     (if bs < 1 then Inl (ValueError ''batch_size must be a positive integer'')
      else if length nn = 0 then Inl (ValueError ''num_neighbors must be non-empty'')
      else Inr \<lparr>tensor_store_name = name,
                batch_size = bs,
                num_neighbors = map (\<lambda>x. if x < 0 then 2 ^ 64 - 1 else x) nn,
                priv_graph_loader_id = None,
                priv_size = None,
                priv_closed = True\<rparr>)"

definition is_closed :: "'a GraphLoader_scheme \<Rightarrow> bool" where
  "is_closed self = priv_closed self"

text \<open>
  Modelled from the spec: \<^verbatim>\<open>decorators.check_closed\<close> is missing. Section 4.4:
  "guarded by must be Open, else fail with an invalid-state error"; section 9: "reject
  if closed", a guard before the operation runs.
\<close>

definition check_closed ::
  "('a GraphLoader_scheme \<Rightarrow> MDBClient \<Rightarrow> (exn + 'r) \<times> 'a GraphLoader_scheme \<times> MDBClient) \<Rightarrow>
   'a GraphLoader_scheme \<Rightarrow> MDBClient \<Rightarrow> (exn + 'r) \<times> 'a GraphLoader_scheme \<times> MDBClient" where
  "check_closed f self c =
     (if is_closed self then (Inl InvalidStateError, self, c) else f self c)"

text \<open>
  The request of \<^verbatim>\<open>__next__\<close>, \<^verbatim>\<open>_begin\<close> and \<^verbatim>\<open>_close\<close>: the same three lines
  in each, with the opcode the only difference.
\<close>

definition session_msg :: "protocol \<Rightarrow> RequestType \<Rightarrow> 'a GraphLoader_scheme \<Rightarrow> exn + bytes" where
  "session_msg P rt self =
     (case pack_uint64_opt P (priv_graph_loader_id self) of
        Inl e \<Rightarrow> Inl e
      | Inr b \<Rightarrow> Inr ([] @ pack_byte (request_value P rt) @ b))"

definition priv_close ::
  "protocol \<Rightarrow> 'a GraphLoader_scheme \<Rightarrow> MDBClient \<Rightarrow>
   (exn + unit) \<times> 'a GraphLoader_scheme \<times> MDBClient" where
  "priv_close P self c =
     (case session_msg P GRAPH_LOADER_CLOSE self of
        Inl e \<Rightarrow> (Inl e, self, c)
      | Inr msg \<Rightarrow>
          (case priv_send c msg of
             (Inl e, c1) \<Rightarrow> (Inl e, self, c1)
           | (Inr u, c1) \<Rightarrow>
               (case priv_recv c1 of
                  (Inl e, c2) \<Rightarrow> (Inl e, self, c2)
                | (Inr r, c2) \<Rightarrow>
                    (Inr (),
                     self\<lparr>priv_graph_loader_id := None, priv_size := None,
                          priv_closed := True\<rparr>,
                     c2))))"

definition close ::
  "protocol \<Rightarrow> 'a GraphLoader_scheme \<Rightarrow> MDBClient \<Rightarrow>
   (exn + unit) \<times> 'a GraphLoader_scheme \<times> MDBClient" where
  "close P self c = (if \<not> priv_closed self then priv_close P self c else (Inr (), self, c))"

definition priv_begin ::
  "protocol \<Rightarrow> 'a GraphLoader_scheme \<Rightarrow> MDBClient \<Rightarrow>
   (exn + unit) \<times> 'a GraphLoader_scheme \<times> MDBClient" where
  "priv_begin P self c =
     (case session_msg P GRAPH_LOADER_BEGIN self of
        Inl e \<Rightarrow> (Inl e, self, c)
      | Inr msg \<Rightarrow>
          (case priv_send c msg of
             (Inl e, c1) \<Rightarrow> (Inl e, self, c1)
           | (Inr u, c1) \<Rightarrow>
               (case priv_recv c1 of
                  (Inl e, c2) \<Rightarrow> (Inl e, self, c2)
                | (Inr r, c2) \<Rightarrow> (Inr (), self, c2))))"

text \<open>\<^verbatim>\<open>size\<close> returns the attribute, \<^verbatim>\<open>__len__\<close> calls \<^verbatim>\<open>size\<close>.\<close>

definition size_GL ::
  "'a GraphLoader_scheme \<Rightarrow> MDBClient \<Rightarrow> (exn + int option) \<times> 'a GraphLoader_scheme \<times> MDBClient" where
  "size_GL = check_closed (\<lambda>self c. (Inr (priv_size self), self, c))"

definition dunder_len ::
  "'a GraphLoader_scheme \<Rightarrow> MDBClient \<Rightarrow> (exn + int option) \<times> 'a GraphLoader_scheme \<times> MDBClient" where
  "dunder_len self c = size_GL self c"

text \<open>\<^verbatim>\<open>__iter__\<close> returns \<^verbatim>\<open>self\<close>: the loader in the state \<^verbatim>\<open>_begin\<close> left it.\<close>

definition dunder_iter ::
  "protocol \<Rightarrow> 'a GraphLoader_scheme \<Rightarrow> MDBClient \<Rightarrow>
   (exn + unit) \<times> 'a GraphLoader_scheme \<times> MDBClient" where
  "dunder_iter P = check_closed (priv_begin P)"

text \<open>
  Sequencing of steps that may raise: the first exception ends the computation.
\<close>

definition bind_exn :: "exn + 'a \<Rightarrow> ('a \<Rightarrow> exn + 'b) \<Rightarrow> exn + 'b" where
  "bind_exn m f = (case m of Inl e \<Rightarrow> Inl e | Inr x \<Rightarrow> f x)"

text \<open>
  The decoding half of \<^verbatim>\<open>__next__\<close> (from \<^verbatim>\<open>num_nodes = ...\<close> to the
  \<^verbatim>\<open>return\<close>), with the variables of the source (primed where a field of
  \<open>Graph\<close> has the name); \<open>lo\<close> and \<open>hi\<close> are rebound as the source rebinds them.
\<close>

definition decode_graph :: "protocol \<Rightarrow> bytes \<Rightarrow> exn + Graph" where
  "decode_graph P data =
     bind_exn (unpack_uint64 P (py_slice data 0 8)) (\<lambda>num_nodes.
     bind_exn (unpack_uint64 P (py_slice data 8 16)) (\<lambda>num_edges.
     bind_exn (unpack_uint64 P (py_slice data 16 24)) (\<lambda>num_seeds'.
     bind_exn (unpack_uint64 P (py_slice data 24 32)) (\<lambda>feature_size'.
     let lo = 32; hi = 32 + 4 * num_nodes * feature_size' in
     bind_exn (unpack_float_vector P (py_slice data lo hi)) (\<lambda>fv.
     bind_exn (reshape (torch_tensor fv) num_nodes feature_size') (\<lambda>node_features'.
     let lo = hi; hi = hi + 8 * num_nodes in
     bind_exn (unpack_uint64_vector P (py_slice data lo hi)) (\<lambda>lv.
     bind_exn (torch_tensor_int64 lv) (\<lambda>node_labels'.
     let lo = hi; hi = hi + 8 * 2 * num_edges in
     bind_exn (unpack_uint64_vector P (py_slice data lo hi)) (\<lambda>ev.
     bind_exn (torch_tensor_int64 ev) (\<lambda>et.
     bind_exn (reshape et 2 num_edges) (\<lambda>edge_index'.
     let lo = hi; hi = hi + 8 * num_nodes in
     bind_exn (unpack_uint64_vector P (py_slice data lo hi)) (\<lambda>node_ids'.
     Inr \<lparr>node_features = node_features',
          node_labels = node_labels',
          edge_index = edge_index',
          node_ids = node_ids',
          num_seeds = num_seeds',
          feature_size = feature_size'\<rparr>))))))))))))"

definition next_body ::
  "protocol \<Rightarrow> 'a GraphLoader_scheme \<Rightarrow> MDBClient \<Rightarrow>
   (exn + Graph) \<times> 'a GraphLoader_scheme \<times> MDBClient" where
  "next_body P self c =
     (case session_msg P GRAPH_LOADER_NEXT self of
        Inl e \<Rightarrow> (Inl e, self, c)
      | Inr msg \<Rightarrow>
          (case priv_send c msg of
             (Inl e, c1) \<Rightarrow> (Inl e, self, c1)
           | (Inr u, c1) \<Rightarrow>
               (case priv_recv c1 of
                  (Inl e, c2) \<Rightarrow> (Inl e, self, c2)
                | (Inr (data, code), c2) \<Rightarrow>
                    (if code = END_OF_ITERATION then (Inl StopIteration, self, c2)
                     else (decode_graph P data, self, c2)))))"

definition dunder_next ::
  "protocol \<Rightarrow> 'a GraphLoader_scheme \<Rightarrow> MDBClient \<Rightarrow>
   (exn + Graph) \<times> 'a GraphLoader_scheme \<times> MDBClient" where
  "dunder_next P = check_closed (next_body P)"

subsection \<open>The three loaders\<close>

text \<open>
  \<^verbatim>\<open>_new\<close> ends the same way in the three subclasses: the reply is received, its status
  is dropped, and the identifier and the size are read from its first sixteen bytes
  before the loader is marked open. Each assignment of the source is one step here, so
  that a failure leaves the attributes as the source leaves them.
\<close>

definition new_reply ::
  "protocol \<Rightarrow> 'a GraphLoader_scheme \<Rightarrow> MDBClient \<Rightarrow>
   (exn + unit) \<times> 'a GraphLoader_scheme \<times> MDBClient" where
  "new_reply P self c1 =
     (case priv_recv c1 of
        (Inl e, c2) \<Rightarrow> (Inl e, self, c2)
      | (Inr (data, code), c2) \<Rightarrow>
          (case unpack_uint64 P (py_slice data 0 8) of
             Inl e \<Rightarrow> (Inl e, self, c2)
           | Inr gid \<Rightarrow>
               (let self1 = self\<lparr>priv_graph_loader_id := Some gid\<rparr> in
                case unpack_uint64 P (py_slice data 8 16) of
                  Inl e \<Rightarrow> (Inl e, self1, c2)
                | Inr sz \<Rightarrow>
                    (Inr (), self1\<lparr>priv_size := Some sz, priv_closed := False\<rparr>, c2))))"

text \<open>
  The request is built field by field (\<^verbatim>\<open>msg += ...\<close>); the first encoder that fails
  ends the call before anything is sent.
\<close>

fun concat_packed :: "(exn + bytes) list \<Rightarrow> exn + bytes" where
  "concat_packed [] = Inr []"
| "concat_packed (x # xs) =
     (case x of
        Inl e \<Rightarrow> Inl e
      | Inr b \<Rightarrow>
          (case concat_packed xs of
             Inl e \<Rightarrow> Inl e
           | Inr bs \<Rightarrow> Inr (b @ bs)))"

definition send_new ::
  "protocol \<Rightarrow> exn + bytes \<Rightarrow> 'a GraphLoader_scheme \<Rightarrow> MDBClient \<Rightarrow>
   (exn + unit) \<times> 'a GraphLoader_scheme \<times> MDBClient" where
  "send_new P m self c =
     (case m of
        Inl e \<Rightarrow> (Inl e, self, c)
      | Inr msg \<Rightarrow>
          (case priv_send c msg of
             (Inl e, c1) \<Rightarrow> (Inl e, self, c1)
           | (Inr u, c1) \<Rightarrow> new_reply P self c1))"

type_synonym EvalGraphLoader = GraphLoader

definition EvalGraphLoader_msg :: "protocol \<Rightarrow> EvalGraphLoader \<Rightarrow> exn + bytes" where
  "EvalGraphLoader_msg P self =
     concat_packed
       [Inr [],
        Inr (pack_byte (request_value P EVAL_GRAPH_LOADER_NEW)),
        pack_uint64 P (batch_size self),
        pack_uint64 P (int (length (num_neighbors self))),
        pack_uint64 P (int (length (tensor_store_name self))),
        pack_uint64_vector P (num_neighbors self),
        pack_string (tensor_store_name self)]"

definition EvalGraphLoader_new ::
  "protocol \<Rightarrow> EvalGraphLoader \<Rightarrow> MDBClient \<Rightarrow> (exn + unit) \<times> EvalGraphLoader \<times> MDBClient" where
  "EvalGraphLoader_new P self c = send_new P (EvalGraphLoader_msg P self) self c"

text \<open>
  A constructor returns the new loader, or the exception that ended it; the client is
  returned in both cases.
\<close>

definition EvalGraphLoader_init ::
  "protocol \<Rightarrow> MDBClient \<Rightarrow> py_str \<Rightarrow> int \<Rightarrow> int list \<Rightarrow> (exn + EvalGraphLoader) \<times> MDBClient" where
  "EvalGraphLoader_init P c name bs nn =
     (case GraphLoader_init name bs nn of
        Inl e \<Rightarrow> (Inl e, c)
      | Inr self \<Rightarrow>
          (case EvalGraphLoader_new P self c of
             (Inl e, self', c') \<Rightarrow> (Inl e, c')
           | (Inr u, self', c') \<Rightarrow> (Inr self', c')))"

record SamplingGraphLoader = GraphLoader +
  num_seeds :: int

definition SamplingGraphLoader_msg :: "protocol \<Rightarrow> SamplingGraphLoader \<Rightarrow> exn + bytes" where
  "SamplingGraphLoader_msg P self =
     concat_packed
       [Inr [],
        Inr (pack_byte (request_value P SAMPLING_GRAPH_LOADER_NEW)),
        pack_uint64 P (batch_size self),
        pack_uint64 P (SamplingGraphLoader.num_seeds self),
        pack_uint64 P (int (length (num_neighbors self))),
        pack_uint64 P (int (length (tensor_store_name self))),
        pack_uint64_vector P (num_neighbors self),
        pack_string (tensor_store_name self)]"

definition SamplingGraphLoader_new ::
  "protocol \<Rightarrow> SamplingGraphLoader \<Rightarrow> MDBClient \<Rightarrow>
   (exn + unit) \<times> SamplingGraphLoader \<times> MDBClient" where
  "SamplingGraphLoader_new P self c = send_new P (SamplingGraphLoader_msg P self) self c"

definition SamplingGraphLoader_init ::
  "protocol \<Rightarrow> MDBClient \<Rightarrow> py_str \<Rightarrow> int \<Rightarrow> int list \<Rightarrow> int \<Rightarrow>
   (exn + SamplingGraphLoader) \<times> MDBClient" where
  "SamplingGraphLoader_init P c name bs nn ns =
     (if ns < 1 then (Inl (ValueError ''num_seeds must be a positive integer''), c)
      else
        (case GraphLoader_init name bs nn of
           Inl e \<Rightarrow> (Inl e, c)
         | Inr base \<Rightarrow>
             (case SamplingGraphLoader_new P
                     (GraphLoader.extend base (SamplingGraphLoader.fields ns)) c of
                (Inl e, self', c') \<Rightarrow> (Inl e, c')
              | (Inr u, self', c') \<Rightarrow> (Inr self', c'))))"

record TrainGraphLoader = GraphLoader +
  seed_ids :: "int list"

definition TrainGraphLoader_msg :: "protocol \<Rightarrow> TrainGraphLoader \<Rightarrow> exn + bytes" where
  "TrainGraphLoader_msg P self =
     concat_packed
       [Inr [],
        Inr (pack_byte (request_value P TRAIN_GRAPH_LOADER_NEW)),
        pack_uint64 P (batch_size self),
        pack_uint64 P (int (length (num_neighbors self))),
        pack_uint64 P (int (length (tensor_store_name self))),
        pack_uint64 P (int (length (seed_ids self))),
        pack_uint64_vector P (num_neighbors self),
        pack_string (tensor_store_name self),
        pack_uint64_vector P (seed_ids self)]"

definition TrainGraphLoader_new ::
  "protocol \<Rightarrow> TrainGraphLoader \<Rightarrow> MDBClient \<Rightarrow>
   (exn + unit) \<times> TrainGraphLoader \<times> MDBClient" where
  "TrainGraphLoader_new P self c = send_new P (TrainGraphLoader_msg P self) self c"

definition TrainGraphLoader_init ::
  "protocol \<Rightarrow> MDBClient \<Rightarrow> py_str \<Rightarrow> int \<Rightarrow> int list \<Rightarrow> int list \<Rightarrow>
   (exn + TrainGraphLoader) \<times> MDBClient" where
  "TrainGraphLoader_init P c name bs nn sids =
     (case GraphLoader_init name bs nn of
        Inl e \<Rightarrow> (Inl e, c)
      | Inr base \<Rightarrow>
          (if length sids = 0 then (Inl (ValueError ''seed_ids must be non-empty''), c)
           else
             (case TrainGraphLoader_new P
                     (GraphLoader.extend base (TrainGraphLoader.fields sids)) c of
                (Inl e, self', c') \<Rightarrow> (Inl e, c')
              | (Inr u, self', c') \<Rightarrow> (Inr self', c'))))"

subsection \<open>The reply to \<^verbatim>\<open>NEXT\<close> as the specification lays it out\<close>

text \<open>
  Section 6: "num_nodes, num_edges, num_seeds, feature_size, node_features (float32,
  row-major), node_labels (u64), edge_index (u64, row-major), node_ids (u64)", each field
  right after the one before. The header fields and the elements are given as words of
  their width; the definition follows the specification and is compared with
  \<open>decode_graph\<close> below.
\<close>

definition next_reply_layout ::
  "protocol \<Rightarrow> 64 word \<Rightarrow> 64 word \<Rightarrow> 64 word \<Rightarrow> 64 word \<Rightarrow>
   32 word list \<Rightarrow> 64 word list \<Rightarrow> 64 word list \<Rightarrow> 64 word list \<Rightarrow> bytes" where
  "next_reply_layout P n e s f feats labels edges ids =
     fixed_bytes P 8 (uint n) @ fixed_bytes P 8 (uint e) @
     fixed_bytes P 8 (uint s) @ fixed_bytes P 8 (uint f) @
     concat (map (fixed_bytes P 4) (map uint feats)) @
     concat (map (fixed_bytes P 8) (map uint labels)) @
     concat (map (fixed_bytes P 8) (map uint edges)) @
     concat (map (fixed_bytes P 8) (map uint ids))"

subsection \<open>Example values\<close>

text \<open>
  One instance of the protocol parameters, a client with two replies to come, and a
  loader in each of its two states.
\<close>

definition wire_example :: protocol where
  "wire_example = \<lparr>request_value = case_RequestType 1 2 3 4 5 6, big_endian = True\<rparr>"

definition client_example :: MDBClient where
  "client_example =
     \<lparr>connected = True, outbox = [],
      inbox = [([0, 0, 0, 0, 0, 0, 0, 7, 0, 0, 0, 0, 0, 0, 0, 4], NORMAL_COMPLETION),
               ([], NORMAL_COMPLETION)]\<rparr>"

definition closed_example :: GraphLoader where
  "closed_example =
     \<lparr>tensor_store_name = [0x41], batch_size = 2, num_neighbors = [5, 2 ^ 64 - 1],
      priv_graph_loader_id = None, priv_size = None, priv_closed = True\<rparr>"

definition open_example :: GraphLoader where
  "open_example =
     \<lparr>tensor_store_name = [0x41], batch_size = 2, num_neighbors = [5, 2 ^ 64 - 1],
      priv_graph_loader_id = Some 7, priv_size = Some 4, priv_closed = False\<rparr>"

text \<open>
  The payload and the batch of a reply with no nodes; the three creation requests for
  \<^verbatim>\<open>batch_size = 2\<close>, \<^verbatim>\<open>num_neighbors = [5, -1]\<close> and the store name \<^verbatim>\<open>"A"\<close>
  (with \<^verbatim>\<open>num_seeds = 3\<close>, and with \<^verbatim>\<open>seed_ids = [10, 11]\<close>); the loaders these
  constructions return; a client whose only reply stops after the identifier.
\<close>

definition empty_batch_payload :: bytes where
  "empty_batch_payload = replicate 32 0"

definition empty_batch :: Graph where
  "empty_batch =
     \<lparr>node_features = \<lparr>shape = [0, 0], storage = []\<rparr>,
      node_labels = \<lparr>shape = [0], storage = []\<rparr>,
      edge_index = \<lparr>shape = [2, 0], storage = []\<rparr>,
      node_ids = [], num_seeds = 0, feature_size = 0\<rparr>"

definition eval_request_example :: bytes where
  "eval_request_example =
     [4, 0, 0, 0, 0, 0, 0, 0, 2, 0, 0, 0, 0, 0, 0, 0, 2, 0, 0, 0, 0, 0, 0, 0, 1,
      0, 0, 0, 0, 0, 0, 0, 5, 255, 255, 255, 255, 255, 255, 255, 255, 65]"

definition sampling_request_example :: bytes where
  "sampling_request_example =
     [5, 0, 0, 0, 0, 0, 0, 0, 2, 0, 0, 0, 0, 0, 0, 0, 3, 0, 0, 0, 0, 0, 0, 0, 2,
      0, 0, 0, 0, 0, 0, 0, 1, 0, 0, 0, 0, 0, 0, 0, 5, 255, 255, 255, 255, 255, 255, 255, 255,
      65]"

definition train_request_example :: bytes where
  "train_request_example =
     [6, 0, 0, 0, 0, 0, 0, 0, 2, 0, 0, 0, 0, 0, 0, 0, 2, 0, 0, 0, 0, 0, 0, 0, 1,
      0, 0, 0, 0, 0, 0, 0, 2, 0, 0, 0, 0, 0, 0, 0, 5, 255, 255, 255, 255, 255, 255, 255, 255,
      65, 0, 0, 0, 0, 0, 0, 0, 10, 0, 0, 0, 0, 0, 0, 0, 11]"

definition sampling_example :: SamplingGraphLoader where
  "sampling_example = GraphLoader.extend open_example (SamplingGraphLoader.fields 3)"

definition train_example :: TrainGraphLoader where
  "train_example = GraphLoader.extend open_example (TrainGraphLoader.fields [10, 11])"

definition half_reply_client :: MDBClient where
  "half_reply_client =
     \<lparr>connected = True, outbox = [],
      inbox = [([0, 0, 0, 0, 0, 0, 0, 7], NORMAL_COMPLETION)]\<rparr>"

text \<open>
  A reply for three nodes, two edges, one seed and four features per node, with the batch
  it encodes; the same header with nothing after it; a reply for one node whose label is
  \<open>2 ^ 63\<close>; a header alone that announces no nodes and a feature size of \<open>2 ^ 63\<close>;
  the reply with no nodes followed by one more byte; and a reply whose header announces
  one node and that stops after the label, before the node identifier, alone and with
  four more bytes.
\<close>

definition features_example :: "32 word list" where
  "features_example = [1, 2, 3, 4, 5, 6, 7, 8, 9, 10, 11, 0x3F800000]"

definition labels_example :: "64 word list" where
  "labels_example = [7, 8, 2 ^ 63 - 1]"

definition edges_example :: "64 word list" where
  "edges_example = [0, 1, 1, 2]"

definition ids_example :: "64 word list" where
  "ids_example = [100, 200, 300]"

definition payload_example :: bytes where
  "payload_example =
     next_reply_layout wire_example 3 2 1 4 features_example labels_example edges_example
       ids_example"

definition batch_example :: Graph where
  "batch_example =
     \<lparr>node_features = \<lparr>shape = [3, 4], storage = features_example\<rparr>,
      node_labels = \<lparr>shape = [3], storage = labels_example\<rparr>,
      edge_index = \<lparr>shape = [2, 2], storage = edges_example\<rparr>,
      node_ids = [100, 200, 300], num_seeds = 1, feature_size = 4\<rparr>"

definition header_only_example :: bytes where
  "header_only_example = next_reply_layout wire_example 3 2 1 4 [] [] [] []"

definition overflow_payload_example :: bytes where
  "overflow_payload_example =
     [0, 0, 0, 0, 0, 0, 0, 1, 0, 0, 0, 0, 0, 0, 0, 0, 0, 0, 0, 0, 0, 0, 0, 0,
      0, 0, 0, 0, 0, 0, 0, 0, 128, 0, 0, 0, 0, 0, 0, 0, 0, 0, 0, 0, 0, 0, 0, 5]"

definition wide_header_example :: bytes where
  "wide_header_example =
     [0, 0, 0, 0, 0, 0, 0, 0, 0, 0, 0, 0, 0, 0, 0, 0, 0, 0, 0, 0, 0, 0, 0, 0,
      128, 0, 0, 0, 0, 0, 0, 0]"

definition trailing_payload_example :: bytes where
  "trailing_payload_example = replicate 32 0 @ [255]"

definition truncated_payload_example :: bytes where
  "truncated_payload_example =
     [0, 0, 0, 0, 0, 0, 0, 1, 0, 0, 0, 0, 0, 0, 0, 0, 0, 0, 0, 0, 0, 0, 0, 0,
      0, 0, 0, 0, 0, 0, 0, 0, 0, 0, 0, 0, 0, 0, 0, 9]"

definition misaligned_payload_example :: bytes where
  "misaligned_payload_example =
     [0, 0, 0, 0, 0, 0, 0, 1, 0, 0, 0, 0, 0, 0, 0, 0, 0, 0, 0, 0, 0, 0, 0, 0,
      0, 0, 0, 0, 0, 0, 0, 0, 0, 0, 0, 0, 0, 0, 0, 9, 0, 0, 0, 0]"

definition truncated_batch_example :: Graph where
  "truncated_batch_example =
     \<lparr>node_features = \<lparr>shape = [1, 0], storage = []\<rparr>,
      node_labels = \<lparr>shape = [1], storage = [9]\<rparr>,
      edge_index = \<lparr>shape = [2, 0], storage = []\<rparr>,
      node_ids = [], num_seeds = 0, feature_size = 0\<rparr>"

section \<open>Properties\<close>

subsection \<open>The codec: widths and round trips\<close>

lemma length_be_bytes: "length (be_bytes n v) = n"
  by (simp add: be_bytes_def)

lemma upt_Suc_shift: "[0..<Suc n] = 0 # map Suc [0..<n]"
  by (simp only: upt_conv_Cons [of 0 "Suc n"] map_Suc_upt zero_less_Suc if_True)

lemma be_bytes_Suc: "be_bytes (Suc n) v = be_bytes n (v div 256) @ [word_of_int v]"
proof -
  have d: "v div 256 ^ Suc i = (v div 256) div 256 ^ i" for i
    using zdiv_zmult2_eq [of "256 ^ i" v 256] by simp
  have "be_bytes (Suc n) v = map (\<lambda>i. word_of_int (v div 256 ^ i)) (rev (0 # map Suc [0..<n]))"
    unfolding be_bytes_def by (simp only: upt_Suc_shift)
  also have "\<dots> = map (\<lambda>i. word_of_int (v div 256 ^ Suc i)) (rev [0..<n]) @ [word_of_int v]"
    by (simp add: rev_map comp_def del: power_Suc upt_Suc)
  also have "\<dots> = be_bytes n (v div 256) @ [word_of_int v]"
    unfolding be_bytes_def by (simp only: d)
  finally show ?thesis .
qed

lemma be_value_snoc: "be_value (bs @ [b]) = be_value bs * 256 + uint b"
  by (simp add: be_value_def)

lemma be_value_be_bytes: "be_value (be_bytes n v) = v mod 256 ^ n"
proof (induction n arbitrary: v)
  case 0
  show ?case by (simp add: be_bytes_def be_value_def)
next
  case (Suc n)
  have "uint (word_of_int v :: byte) = v mod 256"
    by (simp add: uint_word_of_int)
  then have "be_value (be_bytes (Suc n) v) = (v div 256) mod 256 ^ n * 256 + v mod 256"
    by (simp only: be_bytes_Suc be_value_snoc Suc.IH)
  also have "\<dots> = v mod 256 ^ Suc n"
    using zmod_zmult2_eq [of "256 ^ n" v 256] by simp
  finally show ?case .
qed

lemma length_fixed_bytes: "length (fixed_bytes P n v) = n"
  by (simp add: fixed_bytes_def length_be_bytes)

lemma fixed_value_fixed_bytes: "fixed_value P (fixed_bytes P n v) = v mod 256 ^ n"
  by (simp add: fixed_value_def fixed_bytes_def be_value_be_bytes)

lemma be_value_bounds: "0 \<le> be_value bs \<and> be_value bs < 256 ^ length bs"
proof (induction bs rule: rev_induct)
  case Nil
  show ?case by (simp add: be_value_def)
next
  case (snoc b bs)
  have b: "0 \<le> uint b" "uint b < 256"
    using uint_lt2p [of b] by simp_all
  have "be_value bs + 1 \<le> 256 ^ length bs"
    using snoc by simp
  then have "(be_value bs + 1) * 256 \<le> 256 ^ length bs * 256"
    by (simp only: mult_right_mono)
  with b snoc show ?case
    by (simp add: be_value_snoc algebra_simps)
qed

lemma fixed_value_bounds: "0 \<le> fixed_value P bs \<and> fixed_value P bs < 256 ^ length bs"
  using be_value_bounds [of bs] be_value_bounds [of "rev bs"]
  by (simp add: fixed_value_def)

lemma unpack_uint64_fixed_bytes:
  "0 \<le> v \<Longrightarrow> v < 2 ^ 64 \<Longrightarrow> unpack_uint64 P (fixed_bytes P 8 v) = Inr v"
  by (simp add: unpack_uint64_def length_fixed_bytes fixed_value_fixed_bytes)

lemma length_concat_fixed: "length (concat (map (fixed_bytes P w) vs)) = length vs * w"
  by (induction vs) (simp_all add: length_fixed_bytes)

lemma chunks_concat_fixed:
  "map (\<lambda>i. fixed_value P (take w (drop (i * w) (concat (map (fixed_bytes P w) vs)))))
       [0..<length vs]
   = map (\<lambda>v. v mod 256 ^ w) vs"
proof (induction vs)
  case Nil
  show ?case by simp
next
  case (Cons v vs)
  have "[0..<length (v # vs)] = 0 # map Suc [0..<length vs]"
    by (simp only: list.size upt_Suc_shift add_Suc_right add_0_right One_nat_def)
  then show ?case
    using Cons.IH
    by (simp add: comp_def length_fixed_bytes fixed_value_fixed_bytes del: upt_Suc)
qed

lemma unpack_vector_concat:
  assumes "0 < w"
  shows "unpack_vector P w (concat (map (fixed_bytes P w) vs)) = Inr (map (\<lambda>v. v mod 256 ^ w) vs)"
  using assms
  by (simp add: unpack_vector_def length_concat_fixed chunks_concat_fixed)

lemma map_word_of_int_uint: "map word_of_int (map uint ws) = ws"
  by (induction ws) simp_all

lemma unpack_uint64_vector_words:
  "unpack_uint64_vector P (concat (map (fixed_bytes P 8) (map uint (ws :: 64 word list))))
   = Inr (map uint ws)"
proof -
  have m: "uint w mod 256 ^ 8 = uint w" for w :: "64 word"
    using uint_lt2p [of w] by simp
  have "unpack_vector P 8 (concat (map (fixed_bytes P 8) (map uint ws)))
        = Inr (map (\<lambda>v. v mod 256 ^ 8) (map uint ws))"
    by (rule unpack_vector_concat) simp
  also have "map (\<lambda>v. v mod 256 ^ 8) (map uint ws) = map uint ws"
    using m by (simp add: comp_def)
  finally show ?thesis
    by (simp only: unpack_uint64_vector_def)
qed

lemma unpack_float_vector_words:
  "unpack_float_vector P (concat (map (fixed_bytes P 4) (map uint (ws :: 32 word list))))
   = Inr ws"
proof -
  have m: "uint w mod 256 ^ 4 = uint w" for w :: "32 word"
    using uint_lt2p [of w] by simp
  have "unpack_vector P 4 (concat (map (fixed_bytes P 4) (map uint ws)))
        = Inr (map (\<lambda>v. v mod 256 ^ 4) (map uint ws))"
    by (rule unpack_vector_concat) simp
  also have "map (\<lambda>v. v mod 256 ^ 4) (map uint ws) = map uint ws"
    using m by (simp add: comp_def)
  finally have "unpack_vector P 4 (concat (map (fixed_bytes P 4) (map uint ws)))
        = Inr (map uint ws)" .
  then show ?thesis
    by (simp add: unpack_float_vector_def map_word_of_int_uint del: map_map)
qed

subsection \<open>Slices and the decoding of a well-formed reply\<close>

lemma bind_exn_Inr: "bind_exn (Inr x) f = f x"
  by (simp add: bind_exn_def)

lemma bind_exn_Inl: "bind_exn (Inl e) f = Inl e"
  by (simp add: bind_exn_def)

lemma py_slice_nonneg:
  "0 \<le> lo \<Longrightarrow> lo \<le> hi \<Longrightarrow> py_slice xs lo hi = take (nat hi - nat lo) (drop (nat lo) xs)"
  by (auto simp: py_slice_def Let_def min_def nat_diff_distrib)

lemma py_slice_mid:
  assumes "lo = int (length a)" and "hi = lo + int (length b)"
  shows "py_slice (a @ b @ c) lo hi = b"
proof -
  have "py_slice (a @ b @ c) lo hi = take (nat hi - nat lo) (drop (nat lo) (a @ b @ c))"
    using assms by (intro py_slice_nonneg) simp_all
  also have "\<dots> = b"
    using assms by simp
  finally show ?thesis .
qed

lemma unpack_uint64_word: "unpack_uint64 P (fixed_bytes P 8 (uint (w :: 64 word))) = Inr (uint w)"
  using uint_lt2p [of w] by (intro unpack_uint64_fixed_bytes) simp_all

lemma torch_tensor_int64_words:
  assumes "\<forall>w\<in>set ws. uint w < 2 ^ 63"
  shows "torch_tensor_int64 (map uint ws) = Inr \<lparr>shape = [int (length ws)], storage = ws\<rparr>"
proof -
  have "- (2 ^ 63) \<le> uint w" for w :: "64 word"
    by (rule order_trans [of _ 0]) simp_all
  with assms have "list_all (\<lambda>x. - (2 ^ 63) \<le> x \<and> x < 2 ^ 63) (map uint ws)"
    by (simp add: list_all_iff)
  then show ?thesis
    by (simp add: torch_tensor_int64_def torch_tensor_def map_word_of_int_uint del: map_map)
qed

lemma torch_tensor_int64_overflow:
  assumes "\<exists>w\<in>set ws. 2 ^ 63 \<le> uint w"
  shows "torch_tensor_int64 (map uint ws) = Inl RuntimeError"
proof -
  have "\<not> list_all (\<lambda>x. - (2 ^ 63) \<le> x \<and> x < 2 ^ 63) (map uint ws)"
    using assms by (auto simp: list_all_iff not_less)
  then show ?thesis
    by (simp add: torch_tensor_int64_def del: map_map)
qed

lemma torch_tensor_int64_Inl: "torch_tensor_int64 xs = Inl err \<Longrightarrow> err = RuntimeError"
  by (simp add: torch_tensor_int64_def split: if_splits)

lemma torch_tensor_int64_Inr:
  "torch_tensor_int64 xs = Inr t \<Longrightarrow> length (storage t) = length xs"
  by (auto simp: torch_tensor_int64_def torch_tensor_def split: if_splits)

lemma py_slice_tail:
  assumes "lo = int (length a)" and "lo + int (length b) \<le> hi"
  shows "py_slice (a @ b) lo hi = b"
proof -
  have "py_slice (a @ b) lo hi = take (nat hi - nat lo) (drop (nat lo) (a @ b))"
    using assms by (intro py_slice_nonneg) simp_all
  also have "\<dots> = b"
    using assms by simp
  finally show ?thesis .
qed

lemma py_slice_beyond:
  assumes "int (length xs) \<le> lo" and "lo \<le> hi"
  shows "py_slice xs lo hi = []"
proof -
  have "py_slice xs lo hi = take (nat hi - nat lo) (drop (nat lo) xs)"
    using assms by (intro py_slice_nonneg) simp_all
  also have "\<dots> = []"
    using assms by simp
  finally show ?thesis .
qed

lemma decode_graph_layout_steps:
  assumes lf: "length feats = unat n * unat f"
    and ll: "length labels \<le> unat n"
    and le: "length edges = 2 * unat e"
    and li: "length ids \<le> unat n"
    and tl: "length labels < unat n \<longrightarrow> edges = [] \<and> ids = []"
    and tx: "length labels < unat n \<or> length ids < unat n \<longrightarrow> extra = []"
    and bn: "uint n < 2 ^ 63" and bf: "uint f < 2 ^ 63"
  shows "decode_graph P (next_reply_layout P n e s f feats labels edges ids @ extra) =
         bind_exn (torch_tensor_int64 (map uint labels)) (\<lambda>node_labels'.
         bind_exn (torch_tensor_int64 (map uint edges)) (\<lambda>et.
         bind_exn (reshape et 2 (uint e)) (\<lambda>edge_index'.
         Inr \<lparr>node_features = \<lparr>shape = [uint n, uint f], storage = feats\<rparr>,
              node_labels = node_labels',
              edge_index = edge_index',
              node_ids = map uint ids,
              num_seeds = uint s,
              feature_size = uint f\<rparr>)))"
proof -
  let ?h1 = "fixed_bytes P 8 (uint n)" and ?h2 = "fixed_bytes P 8 (uint e)"
  let ?h3 = "fixed_bytes P 8 (uint s)" and ?h4 = "fixed_bytes P 8 (uint f)"
  let ?F = "concat (map (fixed_bytes P 4) (map uint feats))"
  let ?L = "concat (map (fixed_bytes P 8) (map uint labels))"
  let ?E = "concat (map (fixed_bytes P 8) (map uint edges))"
  let ?I = "concat (map (fixed_bytes P 8) (map uint ids))"
  let ?data = "next_reply_layout P n e s f feats labels edges ids @ extra"
  let ?hi1 = "32 + 4 * uint n * uint f"
  let ?hi2 = "?hi1 + 8 * uint n"
  let ?hi3 = "?hi2 + 8 * 2 * uint e"
  let ?hi4 = "?hi3 + 8 * uint n"
  have lenF: "int (length ?F) = 4 * uint n * uint f"
    by (simp add: length_concat_fixed lf del: map_map)
  have lenL: "int (length ?L) = 8 * int (length labels)"
    by (simp add: length_concat_fixed del: map_map)
  have lenE: "int (length ?E) = 8 * 2 * uint e"
    by (simp add: length_concat_fixed le del: map_map)
  have lenI: "int (length ?I) = 8 * int (length ids)"
    by (simp add: length_concat_fixed del: map_map)
  have "int (length labels) \<le> int (unat n)" and "int (length ids) \<le> int (unat n)"
    using ll li by (simp_all only: of_nat_le_iff)
  then have ll': "int (length labels) \<le> uint n" and li': "int (length ids) \<le> uint n"
    by simp_all
  have d: "?data = ?h1 @ ?h2 @ ?h3 @ ?h4 @ ?F @ ?L @ ?E @ ?I @ extra"
    by (simp add: next_reply_layout_def del: map_map)
  have s1: "py_slice ?data 0 8 = ?h1"
    unfolding d using py_slice_mid [of 0 "[]" 8 ?h1]
    by (simp add: length_fixed_bytes del: map_map)
  have s2: "py_slice ?data 8 16 = ?h2"
    unfolding d using py_slice_mid [of 8 ?h1 16 ?h2]
    by (simp add: length_fixed_bytes del: map_map)
  have s3: "py_slice ?data 16 24 = ?h3"
    unfolding d using py_slice_mid [of 16 "?h1 @ ?h2" 24 ?h3]
    by (simp add: length_fixed_bytes del: map_map)
  have s4: "py_slice ?data 24 32 = ?h4"
    unfolding d using py_slice_mid [of 24 "?h1 @ ?h2 @ ?h3" 32 ?h4]
    by (simp add: length_fixed_bytes del: map_map)
  have s5: "py_slice ?data 32 ?hi1 = ?F"
    unfolding d using py_slice_mid [of 32 "?h1 @ ?h2 @ ?h3 @ ?h4" ?hi1 ?F] lenF
    by (simp add: length_fixed_bytes del: map_map)
  have s678: "py_slice ?data ?hi1 ?hi2 = ?L \<and> py_slice ?data ?hi2 ?hi3 = ?E \<and>
              py_slice ?data ?hi3 ?hi4 = ?I"
  proof (cases "length labels < unat n")
    case True
    then have z: "edges = []" "ids = []" "extra = []"
      using tl tx by simp_all
    have "int (length labels) < int (unat n)"
      using True by (simp only: of_nat_less_iff)
    then have sh: "int (length labels) < uint n"
      by simp
    have d': "?data = (?h1 @ ?h2 @ ?h3 @ ?h4 @ ?F) @ ?L"
      unfolding d by (simp add: z del: map_map)
    have len: "int (length ?data) = ?hi1 + 8 * int (length labels)"
      unfolding d' using lenF lenL by (simp add: length_fixed_bytes del: map_map)
    have "py_slice ?data ?hi1 ?hi2 = ?L"
      unfolding d'
      using lenF lenL ll'
      by (intro py_slice_tail) (simp_all add: length_fixed_bytes del: map_map)
    moreover have "py_slice ?data ?hi2 ?hi3 = []"
    proof (rule py_slice_beyond)
      show "int (length ?data) \<le> ?hi2"
        unfolding len using sh by linarith
      show "?hi2 \<le> ?hi3"
        using uint_ge_0 [of e] by linarith
    qed
    moreover have "py_slice ?data ?hi3 ?hi4 = []"
    proof (rule py_slice_beyond)
      show "int (length ?data) \<le> ?hi3"
        unfolding len using sh uint_ge_0 [of e] by linarith
      show "?hi3 \<le> ?hi4"
        using uint_ge_0 [of n] by linarith
    qed
    ultimately show ?thesis
      by (simp add: z)
  next
    case False
    with ll have "length labels = unat n"
      by simp
    then have "int (length labels) = int (unat n)"
      by (simp only:)
    then have fl: "int (length labels) = uint n"
      by simp
    have s6: "py_slice ?data ?hi1 ?hi2 = ?L"
      unfolding d
      using py_slice_mid [of ?hi1 "?h1 @ ?h2 @ ?h3 @ ?h4 @ ?F" ?hi2 ?L] lenF lenL fl
      by (simp add: length_fixed_bytes del: map_map)
    have s7: "py_slice ?data ?hi2 ?hi3 = ?E"
      unfolding d
      using py_slice_mid [of ?hi2 "?h1 @ ?h2 @ ?h3 @ ?h4 @ ?F @ ?L" ?hi3 ?E]
        lenF lenL lenE fl
      by (simp add: length_fixed_bytes del: map_map)
    have s8: "py_slice ?data ?hi3 ?hi4 = ?I"
    proof (cases "length ids < unat n")
      case True
      then have x: "extra = []"
        using tx by simp
      have d'': "?data = (?h1 @ ?h2 @ ?h3 @ ?h4 @ ?F @ ?L @ ?E) @ ?I"
        unfolding d by (simp add: x del: map_map)
      show ?thesis
        unfolding d''
        using lenF lenL lenE lenI fl li'
        by (intro py_slice_tail) (simp_all add: length_fixed_bytes del: map_map)
    next
      case False
      with li have "length ids = unat n"
        by simp
      then have "int (length ids) = int (unat n)"
        by (simp only:)
      then have fi: "int (length ids) = uint n"
        by simp
      show ?thesis
        unfolding d
        using py_slice_mid [of ?hi3 "?h1 @ ?h2 @ ?h3 @ ?h4 @ ?F @ ?L @ ?E" ?hi4 ?I]
          lenF lenL lenE lenI fl fi
        by (simp add: length_fixed_bytes del: map_map)
    qed
    from s6 s7 s8 show ?thesis
      by simp
  qed
  have r1: "reshape (torch_tensor feats) (uint n) (uint f)
            = Inr \<lparr>shape = [uint n, uint f], storage = feats\<rparr>"
    using bn bf by (simp add: reshape_def torch_tensor_def lf)
  show ?thesis
    unfolding decode_graph_def Let_def
    by (simp only: s1 s2 s3 s4 s5 s678 unpack_uint64_word bind_exn_Inr
        unpack_float_vector_words unpack_uint64_vector_words r1)
qed

lemma decode_graph_layout:
  assumes "length feats = unat n * unat f" and "length labels \<le> unat n"
    and le: "length edges = 2 * unat e" and "length ids \<le> unat n"
    and "length labels < unat n \<longrightarrow> edges = [] \<and> ids = []"
    and "length labels < unat n \<or> length ids < unat n \<longrightarrow> extra = []"
    and "uint n < 2 ^ 63" and "uint f < 2 ^ 63" and be: "uint e < 2 ^ 63"
    and bl: "\<forall>w\<in>set labels. uint w < 2 ^ 63" and bd: "\<forall>w\<in>set edges. uint w < 2 ^ 63"
  shows "decode_graph P (next_reply_layout P n e s f feats labels edges ids @ extra) =
         Inr \<lparr>node_features = \<lparr>shape = [uint n, uint f], storage = feats\<rparr>,
              node_labels = \<lparr>shape = [int (length labels)], storage = labels\<rparr>,
              edge_index = \<lparr>shape = [2, uint e], storage = edges\<rparr>,
              node_ids = map uint ids,
              num_seeds = uint s,
              feature_size = uint f\<rparr>"
proof -
  have t1: "torch_tensor_int64 (map uint labels)
            = Inr \<lparr>shape = [int (length labels)], storage = labels\<rparr>"
    using bl by (rule torch_tensor_int64_words)
  have t2: "torch_tensor_int64 (map uint edges)
            = Inr \<lparr>shape = [int (length edges)], storage = edges\<rparr>"
    using bd by (rule torch_tensor_int64_words)
  have r2: "reshape \<lparr>shape = [int (length edges)], storage = edges\<rparr> 2 (uint e)
            = Inr \<lparr>shape = [2, uint e], storage = edges\<rparr>"
    using be by (simp add: reshape_def le)
  show ?thesis
    unfolding decode_graph_layout_steps [OF assms(1-8)]
    by (simp only: t1 t2 r2 bind_exn_Inr)
qed

lemma decode_graph_layout_overflow:
  assumes "length feats = unat n * unat f" and "length labels = unat n"
    and "length edges = 2 * unat e" and "length ids = unat n"
    and "uint n < 2 ^ 63" and "uint f < 2 ^ 63"
    and ov: "\<not> ((\<forall>w\<in>set labels. uint w < 2 ^ 63) \<and> (\<forall>w\<in>set edges. uint w < 2 ^ 63))"
  shows "decode_graph P (next_reply_layout P n e s f feats labels edges ids @ extra) =
         Inl RuntimeError"
proof -
  have st: "decode_graph P (next_reply_layout P n e s f feats labels edges ids @ extra) =
         bind_exn (torch_tensor_int64 (map uint labels)) (\<lambda>node_labels'.
         bind_exn (torch_tensor_int64 (map uint edges)) (\<lambda>et.
         bind_exn (reshape et 2 (uint e)) (\<lambda>edge_index'.
         Inr \<lparr>node_features = \<lparr>shape = [uint n, uint f], storage = feats\<rparr>,
              node_labels = node_labels',
              edge_index = edge_index',
              node_ids = map uint ids,
              num_seeds = uint s,
              feature_size = uint f\<rparr>)))"
    using assms(1-6) by (intro decode_graph_layout_steps) simp_all
  show ?thesis
  proof (cases "\<forall>w\<in>set labels. uint w < 2 ^ 63")
    case False
    then have "torch_tensor_int64 (map uint labels) = Inl RuntimeError"
      by (intro torch_tensor_int64_overflow) (auto simp: not_less)
    then show ?thesis
      unfolding st by (simp only: bind_exn_Inl)
  next
    case True
    then have t1: "torch_tensor_int64 (map uint labels)
                   = Inr \<lparr>shape = [int (length labels)], storage = labels\<rparr>"
      by (rule torch_tensor_int64_words)
    from True ov have "torch_tensor_int64 (map uint edges) = Inl RuntimeError"
      by (intro torch_tensor_int64_overflow) (auto simp: not_less)
    then show ?thesis
      unfolding st by (simp only: t1 bind_exn_Inr bind_exn_Inl)
  qed
qed

subsection \<open>What the decoders reject\<close>

lemma int_length_py_slice:
  "0 \<le> lo \<Longrightarrow> lo \<le> hi \<Longrightarrow>
   int (length (py_slice xs lo hi)) = max 0 (min hi (int (length xs)) - lo)"
  by (simp add: py_slice_nonneg)

lemma unpack_uint64_Inl: "unpack_uint64 P x = Inl err \<Longrightarrow> err = StructError"
  by (simp add: unpack_uint64_def split: if_splits)

lemma unpack_uint64_Inr:
  "unpack_uint64 P x = Inr v \<Longrightarrow> length x = 8 \<and> 0 \<le> v \<and> v < 2 ^ 64"
  using fixed_value_bounds [of P x]
  by (auto simp: unpack_uint64_def split: if_splits)

lemma unpack_vector_Inl: "unpack_vector P w x = Inl err \<Longrightarrow> err = StructError"
  by (simp add: unpack_vector_def split: if_splits)

lemma unpack_vector_Inr:
  "unpack_vector P w x = Inr vs \<Longrightarrow> length x = length vs * w"
  by (auto simp: unpack_vector_def split: if_splits)

lemma unpack_uint64_vector_Inl: "unpack_uint64_vector P x = Inl err \<Longrightarrow> err = StructError"
  unfolding unpack_uint64_vector_def by (rule unpack_vector_Inl)

lemma unpack_uint64_vector_Inr:
  "unpack_uint64_vector P x = Inr vs \<Longrightarrow> int (length x) = 8 * int (length vs)"
  unfolding unpack_uint64_vector_def by (drule unpack_vector_Inr) simp

lemma unpack_float_vector_Inl: "unpack_float_vector P x = Inl err \<Longrightarrow> err = StructError"
  by (auto simp: unpack_float_vector_def split: sum.splits dest: unpack_vector_Inl)

lemma unpack_float_vector_Inr:
  "unpack_float_vector P x = Inr vs \<Longrightarrow> int (length x) = 4 * int (length vs)"
  by (auto simp: unpack_float_vector_def split: sum.splits dest: unpack_vector_Inr)

lemma reshape_Inl: "reshape t r c = Inl err \<Longrightarrow> err = RuntimeError \<or> err = TypeError"
  by (auto simp: reshape_def split: if_splits)

lemma reshape_Inr:
  "reshape t r c = Inr t' \<Longrightarrow> r * c = int (length (storage t)) \<and> r < 2 ^ 63 \<and> c < 2 ^ 63"
  by (auto simp: reshape_def split: if_splits)

lemma decode_graph_Inl:
  "decode_graph P data = Inl err \<Longrightarrow>
   err = StructError \<or> err = RuntimeError \<or> err = TypeError"
  unfolding decode_graph_def Let_def bind_exn_def
  by (auto split: sum.splits
      dest: unpack_uint64_Inl unpack_uint64_vector_Inl unpack_float_vector_Inl reshape_Inl
        torch_tensor_int64_Inl)

lemma decode_graph_InrE:
  assumes "decode_graph P data = Inr g"
  obtains n e s f fv nf lv nl ev et ei iv where
    "unpack_uint64 P (py_slice data 0 8) = Inr n"
    "unpack_uint64 P (py_slice data 8 16) = Inr e"
    "unpack_uint64 P (py_slice data 16 24) = Inr s"
    "unpack_uint64 P (py_slice data 24 32) = Inr f"
    "unpack_float_vector P (py_slice data 32 (32 + 4 * n * f)) = Inr fv"
    "reshape (torch_tensor fv) n f = Inr nf"
    "unpack_uint64_vector P (py_slice data (32 + 4 * n * f) (32 + 4 * n * f + 8 * n)) = Inr lv"
    "torch_tensor_int64 lv = Inr nl"
    "unpack_uint64_vector P
       (py_slice data (32 + 4 * n * f + 8 * n) (32 + 4 * n * f + 8 * n + 8 * 2 * e)) = Inr ev"
    "torch_tensor_int64 ev = Inr et"
    "reshape et 2 e = Inr ei"
    "unpack_uint64_vector P
       (py_slice data (32 + 4 * n * f + 8 * n + 8 * 2 * e)
          (32 + 4 * n * f + 8 * n + 8 * 2 * e + 8 * n)) = Inr iv"
  using assms unfolding decode_graph_def Let_def bind_exn_def
  by (auto split: sum.splits)

lemma decode_graph_short_header:
  assumes "length data < 32"
  shows "decode_graph P data = Inl StructError"
proof -
  have "int (length (py_slice data 24 32)) \<noteq> 8"
    using assms by (simp add: int_length_py_slice)
  then have "unpack_uint64 P (py_slice data 24 32) = Inl StructError"
    by (auto simp: unpack_uint64_def)
  then show ?thesis
    unfolding decode_graph_def bind_exn_def
    by (auto split: sum.splits dest: unpack_uint64_Inl)
qed

lemma decode_graph_short:
  assumes h1: "unpack_uint64 P (py_slice data 0 8) = Inr n"
    and h2: "unpack_uint64 P (py_slice data 8 16) = Inr e"
    and h4: "unpack_uint64 P (py_slice data 24 32) = Inr f"
    and cond: "int (length data) < 32 + 4 * n * f \<or>
               0 < e \<and> int (length data) < 32 + 4 * n * f + 8 * n + 8 * 2 * e \<or>
               int (length data) < 32 + 4 * n * f + 8 * n + 8 * 2 * e + 8 * n \<and>
               (int (length data) - (32 + 4 * n * f)) mod 8 \<noteq> 0"
  shows "isl (decode_graph P data)"
proof (rule ccontr)
  assume "\<not> isl (decode_graph P data)"
  then obtain g where "decode_graph P data = Inr g"
    by (cases "decode_graph P data") simp_all
  then obtain n' e' s f' fv nf lv nl ev et ei iv where
    a1: "unpack_uint64 P (py_slice data 0 8) = Inr n'" and
    a2: "unpack_uint64 P (py_slice data 8 16) = Inr e'" and
    a4: "unpack_uint64 P (py_slice data 24 32) = Inr f'" and
    aF: "unpack_float_vector P (py_slice data 32 (32 + 4 * n' * f')) = Inr fv" and
    aR: "reshape (torch_tensor fv) n' f' = Inr nf" and
    aL: "unpack_uint64_vector P
           (py_slice data (32 + 4 * n' * f') (32 + 4 * n' * f' + 8 * n')) = Inr lv" and
    aE: "unpack_uint64_vector P
           (py_slice data (32 + 4 * n' * f' + 8 * n')
              (32 + 4 * n' * f' + 8 * n' + 8 * 2 * e')) = Inr ev" and
    aT: "torch_tensor_int64 ev = Inr et" and
    aS: "reshape et 2 e' = Inr ei" and
    aI: "unpack_uint64_vector P
           (py_slice data (32 + 4 * n' * f' + 8 * n' + 8 * 2 * e')
              (32 + 4 * n' * f' + 8 * n' + 8 * 2 * e' + 8 * n')) = Inr iv"
    by (rule decode_graph_InrE)
  have eq: "n' = n" "e' = e" "f' = f"
    using h1 h2 h4 a1 a2 a4 by simp_all
  define len where "len = int (length data)"
  define x where "x = n * f"
  have n0: "0 \<le> n" and e0: "0 \<le> e" and f0: "0 \<le> f"
    using unpack_uint64_Inr [OF h1] unpack_uint64_Inr [OF h2] unpack_uint64_Inr [OF h4]
    by simp_all
  then have x0: "0 \<le> x"
    by (simp add: x_def)
  have "int (length (py_slice data 24 32)) = 8"
    using unpack_uint64_Inr [OF h4] by simp
  then have len32: "32 \<le> len"
    by (simp add: int_length_py_slice len_def)
  have "x = int (length fv)"
    using reshape_Inr [OF aR] by (simp add: eq x_def torch_tensor_def)
  moreover have "int (length (py_slice data 32 (32 + 4 * x))) = 4 * int (length fv)"
    using unpack_float_vector_Inr [OF aF] by (simp add: eq x_def mult.assoc)
  moreover have "int (length (py_slice data 32 (32 + 4 * x))) = max 0 (min (32 + 4 * x) len - 32)"
    using x0 by (simp add: int_length_py_slice len_def)
  ultimately have F: "max 0 (min (32 + 4 * x) len - 32) = 4 * x"
    by simp
  have "int (length (py_slice data (32 + 4 * x) (32 + 4 * x + 8 * n))) = 8 * int (length lv)"
    using unpack_uint64_vector_Inr [OF aL] by (simp add: eq x_def mult.assoc)
  moreover have "int (length (py_slice data (32 + 4 * x) (32 + 4 * x + 8 * n)))
                 = max 0 (min (32 + 4 * x + 8 * n) len - (32 + 4 * x))"
    using x0 n0 by (simp add: int_length_py_slice len_def)
  ultimately have L: "max 0 (min (32 + 4 * x + 8 * n) len - (32 + 4 * x)) = 8 * int (length lv)"
    by simp
  have "2 * e = int (length ev)"
    using reshape_Inr [OF aS] torch_tensor_int64_Inr [OF aT] by (simp add: eq)
  moreover have "int (length (py_slice data (32 + 4 * x + 8 * n) (32 + 4 * x + 8 * n + 8 * 2 * e)))
                 = 8 * int (length ev)"
    using unpack_uint64_vector_Inr [OF aE] by (simp add: eq x_def mult.assoc)
  moreover have "int (length (py_slice data (32 + 4 * x + 8 * n) (32 + 4 * x + 8 * n + 8 * 2 * e)))
                 = max 0 (min (32 + 4 * x + 8 * n + 8 * 2 * e) len - (32 + 4 * x + 8 * n))"
    using x0 n0 e0 by (simp add: int_length_py_slice len_def)
  ultimately have E: "max 0 (min (32 + 4 * x + 8 * n + 8 * 2 * e) len - (32 + 4 * x + 8 * n))
                      = 16 * e"
    by simp
  have "int (length (py_slice data (32 + 4 * x + 8 * n + 8 * 2 * e)
                       (32 + 4 * x + 8 * n + 8 * 2 * e + 8 * n))) = 8 * int (length iv)"
    using unpack_uint64_vector_Inr [OF aI] by (simp add: eq x_def mult.assoc)
  moreover have "int (length (py_slice data (32 + 4 * x + 8 * n + 8 * 2 * e)
                       (32 + 4 * x + 8 * n + 8 * 2 * e + 8 * n)))
                 = max 0 (min (32 + 4 * x + 8 * n + 8 * 2 * e + 8 * n) len
                          - (32 + 4 * x + 8 * n + 8 * 2 * e))"
    using x0 n0 e0 by (simp add: int_length_py_slice len_def)
  ultimately have I: "max 0 (min (32 + 4 * x + 8 * n + 8 * 2 * e + 8 * n) len
                          - (32 + 4 * x + 8 * n + 8 * 2 * e)) = 8 * int (length iv)"
    by simp
  have A: "32 + 4 * x \<le> len"
    using F len32 x0 by linarith
  have B: "0 < e \<Longrightarrow> 32 + 4 * x + 8 * n + 8 * 2 * e \<le> len"
    using E by linarith
  have C: "(len - (32 + 4 * x)) mod 8 = 0" if "len < 32 + 4 * x + 8 * n + 8 * 2 * e + 8 * n"
  proof -
    consider "len < 32 + 4 * x + 8 * n"
      | "32 + 4 * x + 8 * n \<le> len" "len < 32 + 4 * x + 8 * n + 8 * 2 * e"
      | "32 + 4 * x + 8 * n + 8 * 2 * e \<le> len"
      by linarith
    then show ?thesis
    proof cases
      case 1
      with A L have "len - (32 + 4 * x) = 8 * int (length lv)"
        by linarith
      then show ?thesis by simp
    next
      case 2
      with B e0 have "e = 0" by linarith
      with 2 show ?thesis by simp
    next
      case 3
      with that have "min (32 + 4 * x + 8 * n + 8 * 2 * e + 8 * n) len = len"
        and "0 \<le> len - (32 + 4 * x + 8 * n + 8 * 2 * e)"
        by simp_all
      with I have "len - (32 + 4 * x + 8 * n + 8 * 2 * e) = 8 * int (length iv)"
        by simp
      then have "len - (32 + 4 * x) = 8 * (int (length iv) + n + 2 * e)"
        by simp
      then show ?thesis by simp
    qed
  qed
  have "len < 32 + 4 * x \<or>
        0 < e \<and> len < 32 + 4 * x + 8 * n + 8 * 2 * e \<or>
        len < 32 + 4 * x + 8 * n + 8 * 2 * e + 8 * n \<and> (len - (32 + 4 * x)) mod 8 \<noteq> 0"
    using cond by (simp add: x_def len_def mult.assoc)
  with A B C show False
    by linarith
qed

lemma length_next_reply_layout:
  "int (length (next_reply_layout P n e s f feats labels edges ids)) =
   32 + 4 * int (length feats) + 8 * int (length labels) + 8 * int (length edges) +
   8 * int (length ids)"
  by (simp add: next_reply_layout_def length_fixed_bytes length_concat_fixed del: map_map)

subsection \<open>Transport and session steps\<close>

lemma priv_send_connected:
  "connected c \<Longrightarrow> priv_send c msg = (Inr (), c\<lparr>outbox := outbox c @ [msg]\<rparr>)"
  by (simp add: priv_send_def)

lemma priv_recv_reply:
  "connected c \<Longrightarrow> inbox c = (data, code) # rest \<Longrightarrow>
   priv_recv c =
     (if code = NORMAL_COMPLETION \<or> code = END_OF_ITERATION then Inr (data, code)
      else Inl (ServerError code), c\<lparr>inbox := rest\<rparr>)"
  by (simp add: priv_recv_def)

lemma priv_recv_outbox: "outbox (snd (priv_recv c)) = outbox c"
  by (simp add: priv_recv_def split: list.splits prod.splits)

lemma session_msg_Some:
  "priv_graph_loader_id self = Some gid \<Longrightarrow> 0 \<le> gid \<Longrightarrow> gid < 2 ^ 64 \<Longrightarrow>
   session_msg P rt self = Inr (request_value P rt # fixed_bytes P 8 gid)"
  by (simp add: session_msg_def pack_uint64_opt_def pack_uint64_def pack_byte_def)

lemma new_reply_outbox: "outbox (snd (snd (new_reply P self c))) = outbox c"
proof -
  obtain r c2 where rc: "priv_recv c = (r, c2)"
    by (cases "priv_recv c")
  then have "outbox c2 = outbox c"
    using priv_recv_outbox [of c] by simp
  with rc show ?thesis
    by (simp add: new_reply_def Let_def split: sum.splits prod.splits)
qed

lemma send_new_outbox:
  "connected c \<Longrightarrow> outbox (snd (snd (send_new P (Inr msg) self c))) = outbox c @ [msg]"
  by (simp add: send_new_def priv_send_connected new_reply_outbox)

lemma new_reply_closed:
  "new_reply P self c = (r, self', c') \<Longrightarrow>
   priv_closed self' = (case r of Inl e \<Rightarrow> priv_closed self | Inr u \<Rightarrow> False)"
  by (auto simp: new_reply_def Let_def split: sum.splits prod.splits)

lemma send_new_closed:
  "send_new P m self c = (r, self', c') \<Longrightarrow>
   priv_closed self' = (case r of Inl e \<Rightarrow> priv_closed self | Inr u \<Rightarrow> False)"
  by (auto simp: send_new_def dest: new_reply_closed split: sum.splits prod.splits)

lemma GraphLoader_init_closed:
  "GraphLoader_init name bs nn = Inr base \<Longrightarrow>
   priv_graph_loader_id base = None \<and> priv_size base = None \<and> priv_closed base"
  by (auto simp: GraphLoader_init_def split: if_splits)

lemma close_closed: "priv_closed self \<Longrightarrow> close P self c = (Inr (), self, c)"
  by (simp add: close_def)

lemma priv_close_result:
  "priv_close P self c = (r, self', c') \<Longrightarrow>
   priv_closed self' = (case r of Inl e \<Rightarrow> priv_closed self | Inr u \<Rightarrow> True)"
  by (auto simp: priv_close_def split: sum.splits prod.splits)

subsection \<open>Requests and replies of a session\<close>

lemma dunder_next_reply:
  assumes "\<not> is_closed self"
    and "priv_graph_loader_id self = Some gid" and "0 \<le> gid" and "gid < 2 ^ 64"
    and "connected c" and "inbox c = (data, code) # rest"
  shows "dunder_next P self c =
           (if code = END_OF_ITERATION then Inl StopIteration
            else if code = NORMAL_COMPLETION then decode_graph P data
            else Inl (ServerError code),
            self,
            c\<lparr>outbox := outbox c @ [request_value P GRAPH_LOADER_NEXT # fixed_bytes P 8 gid],
              inbox := rest\<rparr>)"
proof -
  let ?c1 = "c\<lparr>outbox := outbox c @ [request_value P GRAPH_LOADER_NEXT # fixed_bytes P 8 gid]\<rparr>"
  have m: "session_msg P GRAPH_LOADER_NEXT self
           = Inr (request_value P GRAPH_LOADER_NEXT # fixed_bytes P 8 gid)"
    using assms(2-4) by (rule session_msg_Some)
  have r: "priv_recv ?c1 =
             (if code = NORMAL_COMPLETION \<or> code = END_OF_ITERATION then Inr (data, code)
              else Inl (ServerError code), ?c1\<lparr>inbox := rest\<rparr>)"
    using assms(5,6) by (intro priv_recv_reply) simp_all
  show ?thesis
    using assms(1,5)
    by (simp add: dunder_next_def check_closed_def next_body_def m priv_send_connected r)
qed

lemma next_body_outbox:
  assumes "session_msg P GRAPH_LOADER_NEXT self = Inr msg" and "connected c"
  shows "outbox (snd (snd (next_body P self c))) = outbox c @ [msg]"
proof -
  let ?c1 = "c\<lparr>outbox := outbox c @ [msg]\<rparr>"
  obtain r c2 where rc: "priv_recv ?c1 = (r, c2)"
    by (cases "priv_recv ?c1")
  then have "outbox c2 = outbox c @ [msg]"
    using priv_recv_outbox [of ?c1] by simp
  with rc assms show ?thesis
    by (simp add: next_body_def priv_send_connected split: sum.splits prod.splits)
qed

lemma priv_begin_outbox:
  assumes "session_msg P GRAPH_LOADER_BEGIN self = Inr msg" and "connected c"
  shows "outbox (snd (snd (priv_begin P self c))) = outbox c @ [msg]"
proof -
  let ?c1 = "c\<lparr>outbox := outbox c @ [msg]\<rparr>"
  obtain r c2 where rc: "priv_recv ?c1 = (r, c2)"
    by (cases "priv_recv ?c1")
  then have "outbox c2 = outbox c @ [msg]"
    using priv_recv_outbox [of ?c1] by simp
  with rc assms show ?thesis
    by (simp add: priv_begin_def priv_send_connected split: sum.splits prod.splits)
qed

lemma priv_close_outbox:
  assumes "session_msg P GRAPH_LOADER_CLOSE self = Inr msg" and "connected c"
  shows "outbox (snd (snd (priv_close P self c))) = outbox c @ [msg]"
proof -
  let ?c1 = "c\<lparr>outbox := outbox c @ [msg]\<rparr>"
  obtain r c2 where rc: "priv_recv ?c1 = (r, c2)"
    by (cases "priv_recv ?c1")
  then have "outbox c2 = outbox c @ [msg]"
    using priv_recv_outbox [of ?c1] by simp
  with rc assms show ?thesis
    by (simp add: priv_close_def priv_send_connected split: sum.splits prod.splits)
qed

lemma close_returns_closed:
  "close P self c = (Inr u, self', c') \<Longrightarrow> priv_closed self'"
  by (auto simp: close_def split: if_splits dest: priv_close_result)

lemma close_open:
  assumes "\<not> priv_closed self"
    and "priv_graph_loader_id self = Some gid" and "0 \<le> gid" and "gid < 2 ^ 64"
    and "connected c" and "inbox c = (data, code) # rest"
    and "code = NORMAL_COMPLETION \<or> code = END_OF_ITERATION"
  shows "close P self c =
           (Inr (),
            self\<lparr>priv_graph_loader_id := None, priv_size := None, priv_closed := True\<rparr>,
            c\<lparr>outbox := outbox c @ [request_value P GRAPH_LOADER_CLOSE # fixed_bytes P 8 gid],
              inbox := rest\<rparr>)"
proof -
  let ?c1 = "c\<lparr>outbox := outbox c @ [request_value P GRAPH_LOADER_CLOSE # fixed_bytes P 8 gid]\<rparr>"
  have m: "session_msg P GRAPH_LOADER_CLOSE self
           = Inr (request_value P GRAPH_LOADER_CLOSE # fixed_bytes P 8 gid)"
    using assms(2-4) by (rule session_msg_Some)
  have r: "priv_recv ?c1 = (Inr (data, code), ?c1\<lparr>inbox := rest\<rparr>)"
    using assms(5-7) priv_recv_reply [of ?c1 data code rest] by auto
  show ?thesis
    using assms(1,5)
    by (simp add: close_def priv_close_def m priv_send_connected r)
qed

subsection \<open>Construction\<close>

lemma EvalGraphLoader_init_open:
  "EvalGraphLoader_init P c name bs nn = (Inr self, c') \<Longrightarrow> \<not> priv_closed self"
  by (auto simp: EvalGraphLoader_init_def EvalGraphLoader_new_def
      split: sum.splits prod.splits dest: send_new_closed)

lemma SamplingGraphLoader_init_open:
  "SamplingGraphLoader_init P c name bs nn ns = (Inr self, c') \<Longrightarrow> \<not> priv_closed self"
  by (auto simp: SamplingGraphLoader_init_def SamplingGraphLoader_new_def
      split: sum.splits prod.splits if_splits dest: send_new_closed)

lemma TrainGraphLoader_init_open:
  "TrainGraphLoader_init P c name bs nn sids = (Inr self, c') \<Longrightarrow> \<not> priv_closed self"
  by (auto simp: TrainGraphLoader_init_def TrainGraphLoader_new_def
      split: sum.splits prod.splits if_splits dest: send_new_closed)

lemma new_failed_noop:
  assumes "priv_closed self" and "send_new P m self c = (r, self', c')"
  shows "is_closed self' = isl r \<and> (isl r \<longrightarrow> close P self' c' = (Inr (), self', c'))"
proof -
  have "priv_closed self' = (case r of Inl e \<Rightarrow> priv_closed self | Inr u \<Rightarrow> False)"
    using assms(2) by (rule send_new_closed)
  with assms(1) have "priv_closed self' = isl r"
    by (cases r) simp_all
  then show ?thesis
    by (simp add: is_closed_def close_def)
qed

lemma pack_uint64_in_range:
  "0 \<le> v \<Longrightarrow> v < 2 ^ 64 \<Longrightarrow> pack_uint64 P v = Inr (fixed_bytes P 8 v)"
  by (simp add: pack_uint64_def)

lemma pack_uint64_vector_in_range:
  "\<forall>v\<in>set vs. 0 \<le> v \<and> v < 2 ^ 64 \<Longrightarrow>
   pack_uint64_vector P vs = Inr (concat (map (fixed_bytes P 8) vs))"
  by (induction vs) (simp_all add: pack_uint64_in_range)

lemma normalised_in_range:
  "\<forall>v\<in>set nn. v < 2 ^ 64 \<Longrightarrow>
   \<forall>v\<in>set (map (\<lambda>x. if x < 0 then 2 ^ 64 - 1 else x) nn). 0 \<le> v \<and> v < (2 ^ 64 :: int)"
  by auto

lemma GraphLoader_init_valid:
  "1 \<le> bs \<Longrightarrow> nn \<noteq> [] \<Longrightarrow>
   GraphLoader_init name bs nn =
     Inr \<lparr>tensor_store_name = name, batch_size = bs,
          num_neighbors = map (\<lambda>x. if x < 0 then 2 ^ 64 - 1 else x) nn,
          priv_graph_loader_id = None, priv_size = None, priv_closed = True\<rparr>"
  by (simp add: GraphLoader_init_def)

lemma init_result_client:
  "snd (case x of (Inl e, self', c') \<Rightarrow> (Inl e, c') | (Inr u, self', c') \<Rightarrow> (Inr self', c'))
   = snd (snd x)"
  by (cases x) (auto split: sum.splits)

subsection \<open>The examples, evaluated\<close>

lemma base_example: "GraphLoader_init [0x41] 2 [5, - 1] = Inr closed_example"
  by code_simp

lemma eval_init_example:
  "EvalGraphLoader_init wire_example client_example [0x41] 2 [5, - 1] =
     (Inr open_example,
      client_example\<lparr>outbox := [eval_request_example], inbox := [([], NORMAL_COMPLETION)]\<rparr>)"
  by code_simp

lemma sampling_init_example:
  "SamplingGraphLoader_init wire_example client_example [0x41] 2 [5, - 1] 3 =
     (Inr sampling_example,
      client_example\<lparr>outbox := [sampling_request_example],
                     inbox := [([], NORMAL_COMPLETION)]\<rparr>)"
  by code_simp

lemma train_init_example:
  "TrainGraphLoader_init wire_example client_example [0x41] 2 [5, - 1] [10, 11] =
     (Inr train_example,
      client_example\<lparr>outbox := [train_request_example], inbox := [([], NORMAL_COMPLETION)]\<rparr>)"
  by code_simp

lemma close_example:
  "close wire_example open_example
     (client_example\<lparr>outbox := [eval_request_example], inbox := [([], NORMAL_COMPLETION)]\<rparr>) =
   (Inr (), closed_example,
    client_example\<lparr>outbox := [eval_request_example, [3, 0, 0, 0, 0, 0, 0, 0, 7]], inbox := []\<rparr>)"
  by code_simp

lemma eval_new_half_reply:
  "EvalGraphLoader_new wire_example closed_example half_reply_client =
     (Inl StructError, closed_example\<lparr>priv_graph_loader_id := Some 7\<rparr>,
      half_reply_client\<lparr>outbox := [eval_request_example], inbox := []\<rparr>)"
  by code_simp

lemma sampling_new_disconnected:
  "SamplingGraphLoader_new wire_example
     (GraphLoader.extend closed_example (SamplingGraphLoader.fields 3))
     (client_example\<lparr>connected := False\<rparr>) =
   (Inl TransportError, GraphLoader.extend closed_example (SamplingGraphLoader.fields 3),
    client_example\<lparr>connected := False\<rparr>)"
  by code_simp

lemma train_new_disconnected:
  "TrainGraphLoader_new wire_example
     (GraphLoader.extend closed_example (TrainGraphLoader.fields [10, 11]))
     (client_example\<lparr>connected := False\<rparr>) =
   (Inl TransportError, GraphLoader.extend closed_example (TrainGraphLoader.fields [10, 11]),
    client_example\<lparr>connected := False\<rparr>)"
  by code_simp

subsection \<open>Claims\<close>

text \<open>
  C1, as stated: every reply to \<^verbatim>\<open>NEXT\<close> with normal status is decoded field by
  field into a batch. Not every one: the labels and the edge index are stored in signed
  64-bit tensors and the sizes are handed to \<^verbatim>\<open>reshape\<close>, so a value of \<open>2 ^ 63\<close> or
  more makes \<^verbatim>\<open>__next__\<close> raise. A reply laid out exactly as its header declares, for
  one node whose label is \<open>2 ^ 63\<close>, raises; so does a header alone that declares no
  nodes and a feature size of \<open>2 ^ 63\<close>.
\<close>

theorem next_rejects_wide_values_counterexample:
  "overflow_payload_example = next_reply_layout wire_example 1 0 0 0 [] [2 ^ 63] [] [5] \<and>
   int (length overflow_payload_example) = 32 + 4 * 1 * 0 + 8 * 1 + 16 * 0 + 8 * 1 \<and>
   dunder_next wire_example open_example
     (client_example\<lparr>inbox := [(overflow_payload_example, NORMAL_COMPLETION)]\<rparr>)
     = (Inl RuntimeError, open_example,
        client_example\<lparr>outbox := [[1, 0, 0, 0, 0, 0, 0, 0, 7]], inbox := []\<rparr>) \<and>
   wide_header_example = next_reply_layout wire_example 0 0 0 (2 ^ 63) [] [] [] [] \<and>
   int (length wide_header_example) = 32 + 4 * 0 * 2 ^ 63 + 8 * 0 + 16 * 0 + 8 * 0 \<and>
   dunder_next wire_example open_example
     (client_example\<lparr>inbox := [(wide_header_example, NORMAL_COMPLETION)]\<rparr>)
     = (Inl TypeError, open_example,
        client_example\<lparr>outbox := [[1, 0, 0, 0, 0, 0, 0, 0, 7]], inbox := []\<rparr>)"
  by code_simp

text \<open>
  C1, amended: take a reply to \<^verbatim>\<open>NEXT\<close> with normal status whose payload is the
  layout of section 6 (four 64-bit header fields \<open>num_nodes\<close>, \<open>num_edges\<close>,
  \<open>num_seeds\<close>, \<open>feature_size\<close>; then \<open>num_nodes * feature_size\<close> 32-bit floats; then
  \<open>num_nodes\<close> 64-bit labels; then \<open>2 * num_edges\<close> 64-bit edge entries; then
  \<open>num_nodes\<close> 64-bit node identifiers), with \<open>num_nodes\<close>, \<open>num_edges\<close> and
  \<open>feature_size\<close> below \<open>2 ^ 63\<close>. The fields lie back to back, 4 bytes for each float
  and 8 for each integer, so the last read ends at the end of the payload. When every
  label and every edge entry is below \<open>2 ^ 63\<close>, \<^verbatim>\<open>__next__\<close> returns the batch with
  exactly these values: the features as a \<open>[num_nodes, feature_size]\<close> matrix in
  row-major order, the edges as a \<open>[2, num_edges]\<close> matrix, \<open>num_seeds\<close> and
  \<open>feature_size\<close> as the header has them. When a label or an edge entry is \<open>2 ^ 63\<close> or
  more, \<^verbatim>\<open>__next__\<close> raises the tensor library's error after the reply is consumed.
\<close>

theorem next_decodes_reply:
  assumes "\<not> is_closed self"
    and "priv_graph_loader_id self = Some gid" and "0 \<le> gid" and "gid < 2 ^ 64"
    and "connected c"
    and "inbox c =
           (next_reply_layout P n e s f feats labels edges ids, NORMAL_COMPLETION) # rest"
    and "length feats = unat n * unat f" and "length labels = unat n"
    and "length edges = 2 * unat e" and "length ids = unat n"
    and "uint n < 2 ^ 63" and "uint f < 2 ^ 63" and "uint e < 2 ^ 63"
    and "g = \<lparr>node_features = \<lparr>shape = [uint n, uint f], storage = feats\<rparr>,
              node_labels = \<lparr>shape = [uint n], storage = labels\<rparr>,
              edge_index = \<lparr>shape = [2, uint e], storage = edges\<rparr>,
              node_ids = map uint ids,
              num_seeds = uint s,
              feature_size = uint f\<rparr>"
    and "c' = c\<lparr>outbox := outbox c @
                   [request_value P GRAPH_LOADER_NEXT # fixed_bytes P 8 gid],
                 inbox := rest\<rparr>"
  shows "int (length (next_reply_layout P n e s f feats labels edges ids)) =
           32 + 4 * uint n * uint f + 8 * uint n + 8 * 2 * uint e + 8 * uint n \<and>
         (\<forall>i<unat n. \<forall>j<unat f. tensor_at (node_features g) i j = feats ! (i * unat f + j)) \<and>
         (\<forall>j<unat e. tensor_at (edge_index g) 0 j = edges ! j \<and>
                     tensor_at (edge_index g) 1 j = edges ! (unat e + j)) \<and>
         ((\<forall>w\<in>set labels. uint w < 2 ^ 63) \<and> (\<forall>w\<in>set edges. uint w < 2 ^ 63) \<longrightarrow>
            dunder_next P self c = (Inr g, self, c')) \<and>
         (\<not> ((\<forall>w\<in>set labels. uint w < 2 ^ 63) \<and> (\<forall>w\<in>set edges. uint w < 2 ^ 63)) \<longrightarrow>
            dunder_next P self c = (Inl RuntimeError, self, c'))"
proof -
  let ?data = "next_reply_layout P n e s f feats labels edges ids"
  have n: "dunder_next P self c = (decode_graph P ?data, self, c')"
    using dunder_next_reply [OF assms(1-6), of P] assms(15) by simp
  have eqs: "int (length labels) = uint n" "int (length ids) = uint n"
    "int (length edges) = 2 * uint e" "int (length feats) = uint n * uint f"
    using assms(7-10) by simp_all
  have 1: "int (length ?data) =
           32 + 4 * uint n * uint f + 8 * uint n + 8 * 2 * uint e + 8 * uint n"
    unfolding length_next_reply_layout eqs by simp
  have 2: "\<forall>i<unat n. \<forall>j<unat f. tensor_at (node_features g) i j = feats ! (i * unat f + j)"
    by (simp add: assms(14) tensor_at_def)
  have 3: "\<forall>j<unat e. tensor_at (edge_index g) 0 j = edges ! j \<and>
                     tensor_at (edge_index g) 1 j = edges ! (unat e + j)"
    by (simp add: assms(14) tensor_at_def)
  have 4: "dunder_next P self c = (Inr g, self, c')"
    if "(\<forall>w\<in>set labels. uint w < 2 ^ 63) \<and> (\<forall>w\<in>set edges. uint w < 2 ^ 63)"
  proof -
    have "decode_graph P (?data @ []) =
            Inr \<lparr>node_features = \<lparr>shape = [uint n, uint f], storage = feats\<rparr>,
                 node_labels = \<lparr>shape = [int (length labels)], storage = labels\<rparr>,
                 edge_index = \<lparr>shape = [2, uint e], storage = edges\<rparr>,
                 node_ids = map uint ids,
                 num_seeds = uint s,
                 feature_size = uint f\<rparr>"
      using assms(7-13) that by (intro decode_graph_layout) simp_all
    then have "decode_graph P ?data = Inr g"
      by (simp add: assms(14) eqs(1))
    then show ?thesis
      using n by simp
  qed
  have 5: "dunder_next P self c = (Inl RuntimeError, self, c')"
    if "\<not> ((\<forall>w\<in>set labels. uint w < 2 ^ 63) \<and> (\<forall>w\<in>set edges. uint w < 2 ^ 63))"
  proof -
    have "decode_graph P (?data @ []) = Inl RuntimeError"
      using assms(7-12) that by (rule decode_graph_layout_overflow)
    then show ?thesis
      using n by simp
  qed
  from 1 2 3 4 5 show ?thesis
    by blast
qed

theorem next_decodes_reply_witness:
  "dunder_next wire_example open_example
     (client_example\<lparr>inbox := [(payload_example, NORMAL_COMPLETION)]\<rparr>)
   = (Inr batch_example, open_example,
      client_example\<lparr>outbox := [[1, 0, 0, 0, 0, 0, 0, 0, 7]], inbox := []\<rparr>) \<and>
   length payload_example = 160 \<and>
   tensor_at (node_features batch_example) 2 3 = 0x3F800000 \<and>
   tensor_at (edge_index batch_example) 1 0 = 1 \<and>
   dunder_next wire_example open_example
     (client_example\<lparr>inbox :=
        [(next_reply_layout wire_example 1 0 0 0 [] [2 ^ 63] [] [5], NORMAL_COMPLETION)]\<rparr>)
   = (Inl RuntimeError, open_example,
      client_example\<lparr>outbox := [[1, 0, 0, 0, 0, 0, 0, 0, 7]], inbox := []\<rparr>)"
proof -
  let ?c = "client_example\<lparr>inbox := [(payload_example, NORMAL_COMPLETION)]\<rparr>"
  let ?d = "client_example\<lparr>inbox :=
        [(next_reply_layout wire_example 1 0 0 0 [] [2 ^ 63] [] [5], NORMAL_COMPLETION)]\<rparr>"
  let ?r = "client_example\<lparr>outbox := [[1, 0, 0, 0, 0, 0, 0, 0, 7]], inbox := []\<rparr>"
  have o: "\<not> is_closed open_example" "priv_graph_loader_id open_example = Some 7"
    "(0::int) \<le> 7" "(7::int) < 2 ^ 64"
    by (simp_all add: is_closed_def open_example_def)
  have c: "connected ?c"
    "inbox ?c = (next_reply_layout wire_example 3 2 1 4 features_example labels_example
                   edges_example ids_example, NORMAL_COMPLETION) # []"
    by (simp_all add: client_example_def payload_example_def)
  have l: "length features_example = unat (3 :: 64 word) * unat (4 :: 64 word)"
    "length labels_example = unat (3 :: 64 word)"
    "length edges_example = 2 * unat (2 :: 64 word)"
    "length ids_example = unat (3 :: 64 word)"
    "uint (3 :: 64 word) < 2 ^ 63" "uint (4 :: 64 word) < 2 ^ 63" "uint (2 :: 64 word) < 2 ^ 63"
    by (simp_all add: features_example_def labels_example_def edges_example_def
        ids_example_def)
  have g: "batch_example =
             \<lparr>node_features = \<lparr>shape = [uint (3 :: 64 word), uint (4 :: 64 word)],
                                storage = features_example\<rparr>,
              node_labels = \<lparr>shape = [uint (3 :: 64 word)], storage = labels_example\<rparr>,
              edge_index = \<lparr>shape = [2, uint (2 :: 64 word)], storage = edges_example\<rparr>,
              node_ids = map uint ids_example,
              num_seeds = uint (1 :: 64 word),
              feature_size = uint (4 :: 64 word)\<rparr>"
    by (simp add: batch_example_def ids_example_def)
  have u: "?r = ?c\<lparr>outbox := outbox ?c @
               [request_value wire_example GRAPH_LOADER_NEXT # fixed_bytes wire_example 8 7],
             inbox := []\<rparr>"
    by code_simp
  have bl: "(\<forall>w\<in>set labels_example. uint w < 2 ^ 63) \<and>
            (\<forall>w\<in>set edges_example. uint w < 2 ^ 63)"
    by (simp add: labels_example_def edges_example_def)
  note T = next_decodes_reply [OF o c l g u]
  have 1: "dunder_next wire_example open_example ?c = (Inr batch_example, open_example, ?r)"
    by (rule T [THEN conjunct2, THEN conjunct2, THEN conjunct2, THEN conjunct1, rule_format,
          OF bl])
  have 2: "length payload_example = 160"
    using T [THEN conjunct1] by (simp add: payload_example_def)
  have 3: "tensor_at (node_features batch_example) 2 3 = 0x3F800000"
    using T [THEN conjunct2, THEN conjunct1, rule_format, of 2 3]
    by (simp add: features_example_def)
  have 4: "tensor_at (edge_index batch_example) 1 0 = 1"
    using T [THEN conjunct2, THEN conjunct2, THEN conjunct1, rule_format, of 0]
    by (simp add: edges_example_def)
  have d: "connected ?d"
    "inbox ?d = (next_reply_layout wire_example 1 0 0 0 [] [2 ^ 63] [] [5],
                 NORMAL_COMPLETION) # []"
    by (simp_all add: client_example_def)
  have m: "length ([] :: 32 word list) = unat (1 :: 64 word) * unat (0 :: 64 word)"
    "length [2 ^ 63 :: 64 word] = unat (1 :: 64 word)"
    "length ([] :: 64 word list) = 2 * unat (0 :: 64 word)"
    "length [5 :: 64 word] = unat (1 :: 64 word)"
    "uint (1 :: 64 word) < 2 ^ 63" "uint (0 :: 64 word) < 2 ^ 63" "uint (0 :: 64 word) < 2 ^ 63"
    by simp_all
  have v: "?r = ?d\<lparr>outbox := outbox ?d @
               [request_value wire_example GRAPH_LOADER_NEXT # fixed_bytes wire_example 8 7],
             inbox := []\<rparr>"
    by code_simp
  have ov: "\<not> ((\<forall>w\<in>set [2 ^ 63 :: 64 word]. uint w < 2 ^ 63) \<and>
                (\<forall>w\<in>set ([] :: 64 word list). uint w < 2 ^ 63))"
    by simp
  have 5: "dunder_next wire_example open_example ?d = (Inl RuntimeError, open_example, ?r)"
    by (rule next_decodes_reply [OF o d m refl v, THEN conjunct2, THEN conjunct2,
          THEN conjunct2, THEN conjunct2, rule_format, OF ov])
  from 1 2 3 4 5 show ?thesis by (intro conjI)
qed

text \<open>
  C2, as stated: every payload whose length differs from what its header declares makes
  the decoding fail. It does not: \<^verbatim>\<open>__next__\<close> never compares the cursor with the
  length of the payload. A reply whose header declares no nodes and no edges (32 bytes)
  and that carries a 33rd byte is decoded to the empty batch, and a reply whose header
  declares one node (48 bytes) and that stops after 40, before the node identifier, is
  decoded to a batch with no identifiers.
\<close>

theorem payload_length_unchecked_counterexample:
  "unpack_uint64 wire_example (py_slice trailing_payload_example 0 8) = Inr 0 \<and>
   unpack_uint64 wire_example (py_slice trailing_payload_example 8 16) = Inr 0 \<and>
   unpack_uint64 wire_example (py_slice trailing_payload_example 24 32) = Inr 0 \<and>
   int (length trailing_payload_example) \<noteq> 32 + 4 * 0 * 0 + 8 * 0 + 16 * 0 + 8 * 0 \<and>
   dunder_next wire_example open_example
     (client_example\<lparr>inbox := [(trailing_payload_example, NORMAL_COMPLETION)]\<rparr>)
     = (Inr empty_batch, open_example,
        client_example\<lparr>outbox := [[1, 0, 0, 0, 0, 0, 0, 0, 7]], inbox := []\<rparr>) \<and>
   unpack_uint64 wire_example (py_slice truncated_payload_example 0 8) = Inr 1 \<and>
   unpack_uint64 wire_example (py_slice truncated_payload_example 8 16) = Inr 0 \<and>
   unpack_uint64 wire_example (py_slice truncated_payload_example 24 32) = Inr 0 \<and>
   int (length truncated_payload_example) \<noteq> 32 + 4 * 1 * 0 + 8 * 1 + 16 * 0 + 8 * 1 \<and>
   dunder_next wire_example open_example
     (client_example\<lparr>inbox := [(truncated_payload_example, NORMAL_COMPLETION)]\<rparr>)
     = (Inr truncated_batch_example, open_example,
        client_example\<lparr>outbox := [[1, 0, 0, 0, 0, 0, 0, 0, 7]], inbox := []\<rparr>)"
  by code_simp

text \<open>
  C2, amended: the decoding fails, with the decoder's or the tensor library's error, on
  every payload shorter than the 32 header bytes, on every payload that ends before the
  end of \<open>node_features\<close>, when \<open>num_edges\<close> is positive on every payload that ends
  before the end of \<open>edge_index\<close>, and on every payload that ends before its declared
  end at a distance from the end of \<open>node_features\<close> that is no multiple of 8. A payload
  in the layout of section 6 whose values fit the tensors is decoded in every other case:
  bytes after the declared end are ignored, and a payload that stops early is decoded to
  a batch with as many labels and node identifiers as it holds.
\<close>

theorem payload_length_handling:
  assumes "\<not> is_closed self"
    and "priv_graph_loader_id self = Some gid" and "0 \<le> gid" and "gid < 2 ^ 64"
    and "connected c" and "inbox c = (data, NORMAL_COMPLETION) # rest"
  shows
    "(length data < 32 \<longrightarrow> fst (dunder_next P self c) = Inl StructError) \<and>
     (unpack_uint64 P (py_slice data 0 8) = Inr n \<and>
      unpack_uint64 P (py_slice data 8 16) = Inr e \<and>
      unpack_uint64 P (py_slice data 24 32) = Inr f \<and>
      (int (length data) < 32 + 4 * n * f \<or>
       0 < e \<and> int (length data) < 32 + 4 * n * f + 8 * n + 8 * 2 * e \<or>
       int (length data) < 32 + 4 * n * f + 8 * n + 8 * 2 * e + 8 * n \<and>
       (int (length data) - (32 + 4 * n * f)) mod 8 \<noteq> 0) \<longrightarrow>
        fst (dunder_next P self c) = Inl StructError \<or>
        fst (dunder_next P self c) = Inl RuntimeError \<or>
        fst (dunder_next P self c) = Inl TypeError) \<and>
     (data = next_reply_layout P hn he hs hf feats labels edges ids @ extra \<and>
      length feats = unat hn * unat hf \<and> length edges = 2 * unat he \<and>
      length labels \<le> unat hn \<and> length ids \<le> unat hn \<and>
      (length labels < unat hn \<longrightarrow> edges = [] \<and> ids = []) \<and>
      (length labels < unat hn \<or> length ids < unat hn \<longrightarrow> extra = []) \<and>
      uint hn < 2 ^ 63 \<and> uint hf < 2 ^ 63 \<and> uint he < 2 ^ 63 \<and>
      (\<forall>w\<in>set labels. uint w < 2 ^ 63) \<and> (\<forall>w\<in>set edges. uint w < 2 ^ 63) \<longrightarrow>
        fst (dunder_next P self c) =
          Inr \<lparr>node_features = \<lparr>shape = [uint hn, uint hf], storage = feats\<rparr>,
               node_labels = \<lparr>shape = [int (length labels)], storage = labels\<rparr>,
               edge_index = \<lparr>shape = [2, uint he], storage = edges\<rparr>,
               node_ids = map uint ids,
               num_seeds = uint hs,
               feature_size = uint hf\<rparr>)"
proof -
  have d: "fst (dunder_next P self c) = decode_graph P data"
    using dunder_next_reply [OF assms, of P] by simp
  have a: "decode_graph P data = Inl StructError" if "length data < 32"
    using that by (rule decode_graph_short_header)
  have b: "decode_graph P data = Inl StructError \<or> decode_graph P data = Inl RuntimeError \<or>
           decode_graph P data = Inl TypeError"
    if "unpack_uint64 P (py_slice data 0 8) = Inr n"
      and "unpack_uint64 P (py_slice data 8 16) = Inr e"
      and "unpack_uint64 P (py_slice data 24 32) = Inr f"
      and "int (length data) < 32 + 4 * n * f \<or>
           0 < e \<and> int (length data) < 32 + 4 * n * f + 8 * n + 8 * 2 * e \<or>
           int (length data) < 32 + 4 * n * f + 8 * n + 8 * 2 * e + 8 * n \<and>
           (int (length data) - (32 + 4 * n * f)) mod 8 \<noteq> 0"
  proof -
    have "isl (decode_graph P data)"
      using that by (rule decode_graph_short)
    then obtain err where "decode_graph P data = Inl err"
      by (cases "decode_graph P data") simp_all
    then show ?thesis
      using decode_graph_Inl [of P data err] by auto
  qed
  have t: "decode_graph P data =
          Inr \<lparr>node_features = \<lparr>shape = [uint hn, uint hf], storage = feats\<rparr>,
               node_labels = \<lparr>shape = [int (length labels)], storage = labels\<rparr>,
               edge_index = \<lparr>shape = [2, uint he], storage = edges\<rparr>,
               node_ids = map uint ids,
               num_seeds = uint hs,
               feature_size = uint hf\<rparr>"
    if "data = next_reply_layout P hn he hs hf feats labels edges ids @ extra"
      and "length feats = unat hn * unat hf" and "length edges = 2 * unat he"
      and "length labels \<le> unat hn" and "length ids \<le> unat hn"
      and "length labels < unat hn \<longrightarrow> edges = [] \<and> ids = []"
      and "length labels < unat hn \<or> length ids < unat hn \<longrightarrow> extra = []"
      and "uint hn < 2 ^ 63" and "uint hf < 2 ^ 63" and "uint he < 2 ^ 63"
      and "\<forall>w\<in>set labels. uint w < 2 ^ 63" and "\<forall>w\<in>set edges. uint w < 2 ^ 63"
    unfolding that(1) using that(2-) by (intro decode_graph_layout)
  show ?thesis
    unfolding d using a b t by blast
qed

theorem payload_length_handling_witness:
  "fst (dunder_next wire_example open_example
          (client_example\<lparr>inbox := [([0, 0, 0], NORMAL_COMPLETION)]\<rparr>))
     = Inl StructError \<and>
   (fst (dunder_next wire_example open_example
          (client_example\<lparr>inbox := [(header_only_example, NORMAL_COMPLETION)]\<rparr>))
      = Inl StructError \<or>
    fst (dunder_next wire_example open_example
          (client_example\<lparr>inbox := [(header_only_example, NORMAL_COMPLETION)]\<rparr>))
      = Inl RuntimeError \<or>
    fst (dunder_next wire_example open_example
          (client_example\<lparr>inbox := [(header_only_example, NORMAL_COMPLETION)]\<rparr>))
      = Inl TypeError) \<and>
   (fst (dunder_next wire_example open_example
          (client_example\<lparr>inbox := [(misaligned_payload_example, NORMAL_COMPLETION)]\<rparr>))
      = Inl StructError \<or>
    fst (dunder_next wire_example open_example
          (client_example\<lparr>inbox := [(misaligned_payload_example, NORMAL_COMPLETION)]\<rparr>))
      = Inl RuntimeError \<or>
    fst (dunder_next wire_example open_example
          (client_example\<lparr>inbox := [(misaligned_payload_example, NORMAL_COMPLETION)]\<rparr>))
      = Inl TypeError) \<and>
   fst (dunder_next wire_example open_example
          (client_example\<lparr>inbox := [(payload_example @ [0], NORMAL_COMPLETION)]\<rparr>))
     = Inr batch_example \<and>
   fst (dunder_next wire_example open_example
          (client_example\<lparr>inbox := [(truncated_payload_example, NORMAL_COMPLETION)]\<rparr>))
     = Inr truncated_batch_example"
proof -
  have o: "\<not> is_closed open_example" "priv_graph_loader_id open_example = Some 7"
    "(0::int) \<le> 7" "(7::int) < 2 ^ 64"
    by (simp_all add: is_closed_def open_example_def)
  have c: "connected (client_example\<lparr>inbox := [(x, NORMAL_COMPLETION)]\<rparr>)"
    "inbox (client_example\<lparr>inbox := [(x, NORMAL_COMPLETION)]\<rparr>) = (x, NORMAL_COMPLETION) # []"
    for x
    by (simp_all add: client_example_def)
  note T = payload_length_handling [OF o c, of _ wire_example]
  have 1: "fst (dunder_next wire_example open_example
          (client_example\<lparr>inbox := [([0, 0, 0], NORMAL_COMPLETION)]\<rparr>)) = Inl StructError"
    using T [of "[0, 0, 0]", THEN conjunct1] by simp
  have h: "unpack_uint64 wire_example (py_slice header_only_example 0 8) = Inr 3 \<and>
      unpack_uint64 wire_example (py_slice header_only_example 8 16) = Inr 2 \<and>
      unpack_uint64 wire_example (py_slice header_only_example 24 32) = Inr 4 \<and>
      (int (length header_only_example) < 32 + 4 * 3 * 4 \<or>
       (0::int) < 2 \<and> int (length header_only_example) < 32 + 4 * 3 * 4 + 8 * 3 + 8 * 2 * 2 \<or>
       int (length header_only_example) < 32 + 4 * 3 * 4 + 8 * 3 + 8 * 2 * 2 + 8 * 3 \<and>
       (int (length header_only_example) - (32 + 4 * 3 * 4)) mod 8 \<noteq> 0)"
    by code_simp
  have 2: "fst (dunder_next wire_example open_example
          (client_example\<lparr>inbox := [(header_only_example, NORMAL_COMPLETION)]\<rparr>))
      = Inl StructError \<or>
    fst (dunder_next wire_example open_example
          (client_example\<lparr>inbox := [(header_only_example, NORMAL_COMPLETION)]\<rparr>))
      = Inl RuntimeError \<or>
    fst (dunder_next wire_example open_example
          (client_example\<lparr>inbox := [(header_only_example, NORMAL_COMPLETION)]\<rparr>))
      = Inl TypeError"
    by (rule T [of header_only_example, THEN conjunct2, THEN conjunct1, rule_format, OF h])
  have k: "unpack_uint64 wire_example (py_slice misaligned_payload_example 0 8) = Inr 1 \<and>
      unpack_uint64 wire_example (py_slice misaligned_payload_example 8 16) = Inr 0 \<and>
      unpack_uint64 wire_example (py_slice misaligned_payload_example 24 32) = Inr 0 \<and>
      (int (length misaligned_payload_example) < 32 + 4 * 1 * 0 \<or>
       (0::int) < 0 \<and>
       int (length misaligned_payload_example) < 32 + 4 * 1 * 0 + 8 * 1 + 8 * 2 * 0 \<or>
       int (length misaligned_payload_example) < 32 + 4 * 1 * 0 + 8 * 1 + 8 * 2 * 0 + 8 * 1 \<and>
       (int (length misaligned_payload_example) - (32 + 4 * 1 * 0)) mod 8 \<noteq> 0)"
    by code_simp
  have 3: "fst (dunder_next wire_example open_example
          (client_example\<lparr>inbox := [(misaligned_payload_example, NORMAL_COMPLETION)]\<rparr>))
      = Inl StructError \<or>
    fst (dunder_next wire_example open_example
          (client_example\<lparr>inbox := [(misaligned_payload_example, NORMAL_COMPLETION)]\<rparr>))
      = Inl RuntimeError \<or>
    fst (dunder_next wire_example open_example
          (client_example\<lparr>inbox := [(misaligned_payload_example, NORMAL_COMPLETION)]\<rparr>))
      = Inl TypeError"
    by (rule T [of misaligned_payload_example, THEN conjunct2, THEN conjunct1, rule_format,
          OF k])
  have l: "payload_example @ [0] =
      next_reply_layout wire_example 3 2 1 4 features_example labels_example edges_example
        ids_example @ [0] \<and>
      length features_example = unat (3 :: 64 word) * unat (4 :: 64 word) \<and>
      length edges_example = 2 * unat (2 :: 64 word) \<and>
      length labels_example \<le> unat (3 :: 64 word) \<and>
      length ids_example \<le> unat (3 :: 64 word) \<and>
      (length labels_example < unat (3 :: 64 word) \<longrightarrow> edges_example = [] \<and> ids_example = []) \<and>
      (length labels_example < unat (3 :: 64 word) \<or> length ids_example < unat (3 :: 64 word)
         \<longrightarrow> [0 :: byte] = []) \<and>
      uint (3 :: 64 word) < 2 ^ 63 \<and> uint (4 :: 64 word) < 2 ^ 63 \<and>
      uint (2 :: 64 word) < 2 ^ 63 \<and>
      (\<forall>w\<in>set labels_example. uint w < 2 ^ 63) \<and> (\<forall>w\<in>set edges_example. uint w < 2 ^ 63)"
    by (simp add: payload_example_def features_example_def labels_example_def
        edges_example_def ids_example_def)
  have 4: "fst (dunder_next wire_example open_example
          (client_example\<lparr>inbox := [(payload_example @ [0], NORMAL_COMPLETION)]\<rparr>))
     = Inr batch_example"
    using T [of "payload_example @ [0]", THEN conjunct2, THEN conjunct2, rule_format, OF l]
    by (simp add: batch_example_def ids_example_def labels_example_def)
  have tp: "truncated_payload_example = next_reply_layout wire_example 1 0 0 0 [] [9] [] [] @ []"
    by code_simp
  have m: "truncated_payload_example = next_reply_layout wire_example 1 0 0 0 [] [9] [] [] @ [] \<and>
      length ([] :: 32 word list) = unat (1 :: 64 word) * unat (0 :: 64 word) \<and>
      length ([] :: 64 word list) = 2 * unat (0 :: 64 word) \<and>
      length [9 :: 64 word] \<le> unat (1 :: 64 word) \<and>
      length ([] :: 64 word list) \<le> unat (1 :: 64 word) \<and>
      (length [9 :: 64 word] < unat (1 :: 64 word) \<longrightarrow>
         ([] :: 64 word list) = [] \<and> ([] :: 64 word list) = []) \<and>
      (length [9 :: 64 word] < unat (1 :: 64 word) \<or>
       length ([] :: 64 word list) < unat (1 :: 64 word) \<longrightarrow> ([] :: bytes) = []) \<and>
      uint (1 :: 64 word) < 2 ^ 63 \<and> uint (0 :: 64 word) < 2 ^ 63 \<and>
      uint (0 :: 64 word) < 2 ^ 63 \<and>
      (\<forall>w\<in>set [9 :: 64 word]. uint w < 2 ^ 63) \<and>
      (\<forall>w\<in>set ([] :: 64 word list). uint w < 2 ^ 63)"
    using tp by simp
  have 5: "fst (dunder_next wire_example open_example
          (client_example\<lparr>inbox := [(truncated_payload_example, NORMAL_COMPLETION)]\<rparr>))
     = Inr truncated_batch_example"
    using T [of truncated_payload_example, THEN conjunct2, THEN conjunct2, rule_format, OF m]
    by (simp add: truncated_batch_example_def)
  from 1 2 3 4 5 show ?thesis by (intro conjI)
qed

text \<open>
  C3. On a closed loader, \<^verbatim>\<open>size\<close> (and so \<^verbatim>\<open>__len__\<close>), \<^verbatim>\<open>__iter__\<close> and
  \<^verbatim>\<open>__next__\<close> raise the invalid-state error and leave the loader and the client as
  they were: nothing is sent and nothing is received. \<^verbatim>\<open>is_closed\<close> is the value of
  the attribute, on every loader; it takes no client and cannot raise.
\<close>

theorem closed_session_rejects_operations:
  "is_closed self = priv_closed self \<and>
   (is_closed self \<longrightarrow>
      size_GL self c = (Inl InvalidStateError, self, c) \<and>
      dunder_len self c = (Inl InvalidStateError, self, c) \<and>
      dunder_iter P self c = (Inl InvalidStateError, self, c) \<and>
      dunder_next P self c = (Inl InvalidStateError, self, c))"
  by (simp add: is_closed_def size_GL_def dunder_len_def dunder_iter_def dunder_next_def
      check_closed_def)

theorem closed_session_rejects_operations_witness:
  "is_closed closed_example \<and>
   size_GL closed_example client_example = (Inl InvalidStateError, closed_example, client_example) \<and>
   dunder_len closed_example client_example = (Inl InvalidStateError, closed_example, client_example) \<and>
   dunder_iter wire_example closed_example client_example
     = (Inl InvalidStateError, closed_example, client_example) \<and>
   dunder_next wire_example closed_example client_example
     = (Inl InvalidStateError, closed_example, client_example)"
proof -
  have h: "is_closed closed_example"
    by (simp add: is_closed_def closed_example_def)
  with closed_session_rejects_operations [of closed_example client_example wire_example]
  show ?thesis by simp
qed

text \<open>
  C4. A loader returned by a constructor is not closed. Whenever \<^verbatim>\<open>close\<close> returns, the
  loader is closed. On an open loader whose request is answered, \<^verbatim>\<open>close\<close> sends
  \<^verbatim>\<open>CLOSE\<close> with the identifier, consumes the reply, sets the identifier and the size
  to \<^verbatim>\<open>None\<close> and marks the loader closed. On a closed loader \<^verbatim>\<open>close\<close> sends nothing
  and changes nothing, and no operation makes a closed loader open again.
\<close>

theorem close_lifecycle:
  "(EvalGraphLoader_init P c name bs nn = (Inr ev, c') \<longrightarrow> \<not> is_closed ev) \<and>
   (SamplingGraphLoader_init P c name bs nn ns = (Inr sa, c') \<longrightarrow> \<not> is_closed sa) \<and>
   (TrainGraphLoader_init P c name bs nn sids = (Inr tr, c') \<longrightarrow> \<not> is_closed tr) \<and>
   (close P self c = (Inr (), self', c') \<longrightarrow> is_closed self') \<and>
   (\<not> is_closed self \<and> priv_graph_loader_id self = Some gid \<and> 0 \<le> gid \<and> gid < 2 ^ 64 \<and>
    connected c \<and> inbox c = (data, code) # rest \<and>
    (code = NORMAL_COMPLETION \<or> code = END_OF_ITERATION) \<longrightarrow>
      close P self c =
        (Inr (),
         self\<lparr>priv_graph_loader_id := None, priv_size := None, priv_closed := True\<rparr>,
         c\<lparr>outbox := outbox c @ [request_value P GRAPH_LOADER_CLOSE # fixed_bytes P 8 gid],
           inbox := rest\<rparr>)) \<and>
   (is_closed self \<longrightarrow>
      close P self c = (Inr (), self, c) \<and>
      is_closed (fst (snd (close P self c))) \<and>
      is_closed (fst (snd (size_GL self c))) \<and>
      is_closed (fst (snd (dunder_len self c))) \<and>
      is_closed (fst (snd (dunder_iter P self c))) \<and>
      is_closed (fst (snd (dunder_next P self c))))"
proof -
  have "is_closed self \<Longrightarrow>
      close P self c = (Inr (), self, c) \<and>
      is_closed (fst (snd (close P self c))) \<and>
      is_closed (fst (snd (size_GL self c))) \<and>
      is_closed (fst (snd (dunder_len self c))) \<and>
      is_closed (fst (snd (dunder_iter P self c))) \<and>
      is_closed (fst (snd (dunder_next P self c)))"
    by (simp add: is_closed_def close_def size_GL_def dunder_len_def dunder_iter_def
        dunder_next_def check_closed_def)
  then show ?thesis
    using EvalGraphLoader_init_open [of P c name bs nn ev c']
      SamplingGraphLoader_init_open [of P c name bs nn ns sa c']
      TrainGraphLoader_init_open [of P c name bs nn sids tr c']
      close_returns_closed [of P self c "()" self' c']
      close_open [of self gid c data code rest P]
    unfolding is_closed_def by blast
qed

theorem close_lifecycle_witness:
  "\<not> is_closed open_example \<and> \<not> is_closed sampling_example \<and> \<not> is_closed train_example \<and>
   is_closed closed_example \<and>
   close wire_example open_example
     (client_example\<lparr>outbox := [eval_request_example], inbox := [([], NORMAL_COMPLETION)]\<rparr>) =
   (Inr (), closed_example,
    client_example\<lparr>outbox := [eval_request_example, [3, 0, 0, 0, 0, 0, 0, 0, 7]], inbox := []\<rparr>) \<and>
   close wire_example closed_example client_example = (Inr (), closed_example, client_example)"
proof -
  let ?c1 = "client_example\<lparr>outbox := [eval_request_example], inbox := [([], NORMAL_COMPLETION)]\<rparr>"
  let ?c2 = "client_example\<lparr>outbox := [eval_request_example, [3, 0, 0, 0, 0, 0, 0, 0, 7]], inbox := []\<rparr>"
  have 1: "\<not> is_closed open_example"
    by (rule close_lifecycle [THEN conjunct1, rule_format, OF eval_init_example])
  have 2: "\<not> is_closed sampling_example"
    by (rule close_lifecycle [THEN conjunct2, THEN conjunct1, rule_format,
          OF sampling_init_example])
  have 3: "\<not> is_closed train_example"
    by (rule close_lifecycle [THEN conjunct2, THEN conjunct2, THEN conjunct1, rule_format,
          OF train_init_example])
  have 4: "is_closed closed_example"
    by (rule close_lifecycle [THEN conjunct2, THEN conjunct2, THEN conjunct2, THEN conjunct1,
          rule_format, OF close_example])
  have h: "\<not> is_closed open_example \<and> priv_graph_loader_id open_example = Some 7 \<and>
           (0::int) \<le> 7 \<and> (7::int) < 2 ^ 64 \<and> connected ?c1 \<and>
           inbox ?c1 = ([], NORMAL_COMPLETION) # [] \<and>
           (NORMAL_COMPLETION = NORMAL_COMPLETION \<or> NORMAL_COMPLETION = END_OF_ITERATION)"
    by (simp add: is_closed_def open_example_def client_example_def)
  have b: "request_value wire_example GRAPH_LOADER_CLOSE # fixed_bytes wire_example 8 7
           = [3, 0, 0, 0, 0, 0, 0, 0, 7]"
    by code_simp
  have o: "open_example\<lparr>priv_graph_loader_id := None, priv_size := None, priv_closed := True\<rparr>
           = closed_example"
    by (simp add: open_example_def closed_example_def)
  have u: "?c1\<lparr>outbox := outbox ?c1 @ [[3, 0, 0, 0, 0, 0, 0, 0, 7]], inbox := []\<rparr> = ?c2"
    by (simp add: client_example_def)
  have 5: "close wire_example open_example ?c1 = (Inr (), closed_example, ?c2)"
    using close_lifecycle [THEN conjunct2, THEN conjunct2, THEN conjunct2, THEN conjunct2,
        THEN conjunct1, rule_format, OF h, of wire_example]
    by (simp only: b o u)
  have 6: "close wire_example closed_example client_example
           = (Inr (), closed_example, client_example)"
    by (rule close_lifecycle [THEN conjunct2, THEN conjunct2, THEN conjunct2, THEN conjunct2,
          THEN conjunct2, rule_format, OF 4, THEN conjunct1])
  from 1 2 3 4 5 6 show ?thesis
    by (intro conjI)
qed

text \<open>
  C5. A list of \<^verbatim>\<open>num_neighbors\<close> accepted by the constructor is stored with each
  negative entry replaced by \<open>2 ^ 64 - 1\<close> and every other entry unchanged; for
  \<^verbatim>\<open>batch_size = 2\<close> and \<^verbatim>\<open>[5, -1]\<close> the stored list is \<open>[5, 2 ^ 64 - 1]\<close>, and it
  is encoded as these two unsigned 64-bit integers.
\<close>

theorem num_neighbors_normalised:
  "(GraphLoader_init name bs nn = Inr self \<longrightarrow>
      num_neighbors self = map (\<lambda>n. if n < 0 then 2 ^ 64 - 1 else n) nn) \<and>
   map_sum id num_neighbors (GraphLoader_init name 2 [5, - 1]) = Inr [5, 2 ^ 64 - 1] \<and>
   pack_uint64_vector P [5, 2 ^ 64 - 1] = Inr (fixed_bytes P 8 5 @ fixed_bytes P 8 (2 ^ 64 - 1))"
  by (auto simp: GraphLoader_init_def pack_uint64_def split: if_splits)

theorem num_neighbors_normalised_witness:
  "GraphLoader_init [0x41] 3 [- 7, 0, 12] = Inr (closed_example\<lparr>batch_size := 3, num_neighbors := [2 ^ 64 - 1, 0, 12]\<rparr>) \<and>
   num_neighbors (closed_example\<lparr>batch_size := 3, num_neighbors := [2 ^ 64 - 1, 0, 12]\<rparr>) = [2 ^ 64 - 1, 0, 12]"
proof -
  have h: "GraphLoader_init [0x41] 3 [- 7, 0, 12]
           = Inr (closed_example\<lparr>batch_size := 3, num_neighbors := [2 ^ 64 - 1, 0, 12]\<rparr>)"
    by (simp add: GraphLoader_init_def closed_example_def)
  with num_neighbors_normalised [of "[0x41]" 3 "[- 7, 0, 12]"
      "closed_example\<lparr>batch_size := 3, num_neighbors := [2 ^ 64 - 1, 0, 12]\<rparr>"]
  show ?thesis by simp
qed

text \<open>
  C6. The creation message of each constructor, for arguments that pass validation and
  fit the unsigned 64-bit fields: the opcode byte, then \<open>batch_size\<close>; for the sampling
  loader then \<open>num_seeds\<close>; then the length of \<open>num_neighbors\<close> and the length of
  \<open>tensor_store_name\<close>; for the training loader then the length of \<open>seed_ids\<close>; then
  the stored \<open>num_neighbors\<close>, the bytes of the name and, for the training loader, the
  \<open>seed_ids\<close>. It is the one message the constructor sends.
\<close>

theorem creation_message_layout:
  assumes "1 \<le> bs" and "bs < 2 ^ 64"
    and "nn \<noteq> []" and "length nn < 2 ^ 64" and "\<forall>v\<in>set nn. v < 2 ^ 64"
    and "length name < 2 ^ 64" and "pack_string name = Inr name_bytes"
    and "connected c"
    and "stored = map (\<lambda>x. if x < 0 then 2 ^ 64 - 1 else x) nn"
  shows
    "outbox (snd (EvalGraphLoader_init P c name bs nn)) =
       outbox c @
       [request_value P EVAL_GRAPH_LOADER_NEW # fixed_bytes P 8 bs @
        fixed_bytes P 8 (int (length nn)) @ fixed_bytes P 8 (int (length name)) @
        concat (map (fixed_bytes P 8) stored) @ name_bytes] \<and>
     (1 \<le> ns \<and> ns < 2 ^ 64 \<longrightarrow>
        outbox (snd (SamplingGraphLoader_init P c name bs nn ns)) =
          outbox c @
          [request_value P SAMPLING_GRAPH_LOADER_NEW # fixed_bytes P 8 bs @
           fixed_bytes P 8 ns @
           fixed_bytes P 8 (int (length nn)) @ fixed_bytes P 8 (int (length name)) @
           concat (map (fixed_bytes P 8) stored) @ name_bytes]) \<and>
     (sids \<noteq> [] \<and> length sids < 2 ^ 64 \<and> (\<forall>v\<in>set sids. 0 \<le> v \<and> v < 2 ^ 64) \<longrightarrow>
        outbox (snd (TrainGraphLoader_init P c name bs nn sids)) =
          outbox c @
          [request_value P TRAIN_GRAPH_LOADER_NEW # fixed_bytes P 8 bs @
           fixed_bytes P 8 (int (length nn)) @ fixed_bytes P 8 (int (length name)) @
           fixed_bytes P 8 (int (length sids)) @
           concat (map (fixed_bytes P 8) stored) @ name_bytes @
           concat (map (fixed_bytes P 8) sids)])"
proof -
  have bs: "pack_uint64 P bs = Inr (fixed_bytes P 8 bs)"
    using assms(1,2) by (simp add: pack_uint64_def)
  have ln: "pack_uint64 P (int (length stored)) = Inr (fixed_bytes P 8 (int (length nn)))"
    using assms(4,9) by (simp add: pack_uint64_def)
  have lm: "pack_uint64 P (int (length name)) = Inr (fixed_bytes P 8 (int (length name)))"
    using assms(6) by (simp add: pack_uint64_def)
  have v: "pack_uint64_vector P stored = Inr (concat (map (fixed_bytes P 8) stored))"
    unfolding assms(9) using assms(5)
    by (intro pack_uint64_vector_in_range normalised_in_range)
  have g: "GraphLoader_init name bs nn =
     Inr \<lparr>tensor_store_name = name, batch_size = bs, num_neighbors = stored,
          priv_graph_loader_id = None, priv_size = None, priv_closed = True\<rparr>"
    unfolding assms(9) using assms(1,3) by (rule GraphLoader_init_valid)
  have ev: "outbox (snd (EvalGraphLoader_init P c name bs nn)) =
       outbox c @
       [request_value P EVAL_GRAPH_LOADER_NEW # fixed_bytes P 8 bs @
        fixed_bytes P 8 (int (length nn)) @ fixed_bytes P 8 (int (length name)) @
        concat (map (fixed_bytes P 8) stored) @ name_bytes]"
    using assms(8)
    by (simp add: EvalGraphLoader_init_def g init_result_client EvalGraphLoader_new_def
        EvalGraphLoader_msg_def bs ln lm v assms(7) pack_byte_def send_new_outbox)
  have sa: "outbox (snd (SamplingGraphLoader_init P c name bs nn ns)) =
          outbox c @
          [request_value P SAMPLING_GRAPH_LOADER_NEW # fixed_bytes P 8 bs @
           fixed_bytes P 8 ns @
           fixed_bytes P 8 (int (length nn)) @ fixed_bytes P 8 (int (length name)) @
           concat (map (fixed_bytes P 8) stored) @ name_bytes]"
    if "1 \<le> ns" and "ns < 2 ^ 64"
  proof -
    have "pack_uint64 P ns = Inr (fixed_bytes P 8 ns)"
      using that by (simp add: pack_uint64_def)
    then show ?thesis
      using assms(8) that(1)
      by (simp add: SamplingGraphLoader_init_def g init_result_client
          SamplingGraphLoader_new_def SamplingGraphLoader_msg_def bs ln lm v assms(7)
          pack_byte_def send_new_outbox GraphLoader.defs SamplingGraphLoader.defs)
  qed
  have tr: "outbox (snd (TrainGraphLoader_init P c name bs nn sids)) =
          outbox c @
          [request_value P TRAIN_GRAPH_LOADER_NEW # fixed_bytes P 8 bs @
           fixed_bytes P 8 (int (length nn)) @ fixed_bytes P 8 (int (length name)) @
           fixed_bytes P 8 (int (length sids)) @
           concat (map (fixed_bytes P 8) stored) @ name_bytes @
           concat (map (fixed_bytes P 8) sids)]"
    if "sids \<noteq> []" and "length sids < 2 ^ 64" and "\<forall>v\<in>set sids. 0 \<le> v \<and> v < 2 ^ 64"
  proof -
    have l: "pack_uint64 P (int (length sids)) = Inr (fixed_bytes P 8 (int (length sids)))"
      using that(2) by (simp add: pack_uint64_def)
    have w: "pack_uint64_vector P sids = Inr (concat (map (fixed_bytes P 8) sids))"
      using that(3) by (rule pack_uint64_vector_in_range)
    show ?thesis
      using assms(8) that(1)
      by (simp add: TrainGraphLoader_init_def g init_result_client
          TrainGraphLoader_new_def TrainGraphLoader_msg_def bs ln lm v l w assms(7)
          pack_byte_def send_new_outbox GraphLoader.defs TrainGraphLoader.defs)
  qed
  from ev sa tr show ?thesis by blast
qed

theorem creation_message_layout_witness:
  "outbox (snd (EvalGraphLoader_init wire_example client_example [0x41] 2 [5, - 1]))
     = [eval_request_example] \<and>
   outbox (snd (SamplingGraphLoader_init wire_example client_example [0x41] 2 [5, - 1] 3))
     = [sampling_request_example] \<and>
   outbox (snd (TrainGraphLoader_init wire_example client_example [0x41] 2 [5, - 1] [10, 11]))
     = [train_request_example]"
proof -
  have h: "(1::int) \<le> 2" "(2::int) < 2 ^ 64" "[5, - 1 :: int] \<noteq> []"
    "length [5, - 1 :: int] < 2 ^ 64" "\<forall>v\<in>set [5, - 1 :: int]. v < 2 ^ 64"
    "length [0x41 :: nat] < 2 ^ 64" 
    by simp_all
  have p: "pack_string [0x41] = Inr [65]"
    by code_simp
  have c: "connected client_example"
    by (simp add: client_example_def)
  have s: "[5, 2 ^ 64 - 1] = map (\<lambda>x. if x < 0 then 2 ^ 64 - 1 else x) [5, - 1 :: int]"
    by simp
  have e1: "request_value wire_example EVAL_GRAPH_LOADER_NEW # fixed_bytes wire_example 8 2 @
        fixed_bytes wire_example 8 (int (length [5, - 1 :: int])) @
        fixed_bytes wire_example 8 (int (length [0x41 :: nat])) @
        concat (map (fixed_bytes wire_example 8) [5, 2 ^ 64 - 1]) @ [65]
        = eval_request_example"
    by code_simp
  have e2: "request_value wire_example SAMPLING_GRAPH_LOADER_NEW # fixed_bytes wire_example 8 2 @
        fixed_bytes wire_example 8 3 @
        fixed_bytes wire_example 8 (int (length [5, - 1 :: int])) @
        fixed_bytes wire_example 8 (int (length [0x41 :: nat])) @
        concat (map (fixed_bytes wire_example 8) [5, 2 ^ 64 - 1]) @ [65]
        = sampling_request_example"
    by code_simp
  have e3: "request_value wire_example TRAIN_GRAPH_LOADER_NEW # fixed_bytes wire_example 8 2 @
        fixed_bytes wire_example 8 (int (length [5, - 1 :: int])) @
        fixed_bytes wire_example 8 (int (length [0x41 :: nat])) @
        fixed_bytes wire_example 8 (int (length [10, 11 :: int])) @
        concat (map (fixed_bytes wire_example 8) [5, 2 ^ 64 - 1]) @ [65] @
        concat (map (fixed_bytes wire_example 8) [10, 11])
        = train_request_example"
    by code_simp
  have o: "outbox client_example = []"
    by (simp add: client_example_def)
  show ?thesis
    using creation_message_layout [OF h p c s, of wire_example 3 "[10, 11]"]
    unfolding e1 e2 e3 o by simp
qed

text \<open>
  C7. The message an open loader sends for \<^verbatim>\<open>NEXT\<close>, \<^verbatim>\<open>BEGIN\<close> and \<^verbatim>\<open>CLOSE\<close> is
  the opcode byte followed by the eight bytes of its identifier: nine bytes, from which
  the identifier is read back.
\<close>

theorem session_request_layout:
  assumes "\<not> is_closed self"
    and "priv_graph_loader_id self = Some gid" and "0 \<le> gid" and "gid < 2 ^ 64"
    and "connected c"
  shows "outbox (snd (snd (dunder_next P self c)))
           = outbox c @ [request_value P GRAPH_LOADER_NEXT # fixed_bytes P 8 gid] \<and>
         outbox (snd (snd (dunder_iter P self c)))
           = outbox c @ [request_value P GRAPH_LOADER_BEGIN # fixed_bytes P 8 gid] \<and>
         outbox (snd (snd (close P self c)))
           = outbox c @ [request_value P GRAPH_LOADER_CLOSE # fixed_bytes P 8 gid] \<and>
         length (request_value P rt # fixed_bytes P 8 gid) = 9 \<and>
         unpack_uint64 P (fixed_bytes P 8 gid) = Inr gid"
proof -
  have m: "session_msg P rt self = Inr (request_value P rt # fixed_bytes P 8 gid)" for rt
    using assms(2-4) by (rule session_msg_Some)
  have "outbox (snd (snd (dunder_next P self c)))
           = outbox c @ [request_value P GRAPH_LOADER_NEXT # fixed_bytes P 8 gid]"
    using assms(1) next_body_outbox [OF m assms(5)]
    by (simp add: dunder_next_def check_closed_def)
  moreover have "outbox (snd (snd (dunder_iter P self c)))
           = outbox c @ [request_value P GRAPH_LOADER_BEGIN # fixed_bytes P 8 gid]"
    using assms(1) priv_begin_outbox [OF m assms(5)]
    by (simp add: dunder_iter_def check_closed_def)
  moreover have "outbox (snd (snd (close P self c)))
           = outbox c @ [request_value P GRAPH_LOADER_CLOSE # fixed_bytes P 8 gid]"
    using assms(1) priv_close_outbox [OF m assms(5)]
    by (simp add: close_def is_closed_def)
  ultimately show ?thesis
    using unpack_uint64_fixed_bytes [OF assms(3,4), of P]
    by (simp add: length_fixed_bytes)
qed

theorem session_request_layout_witness:
  "outbox (snd (snd (dunder_next wire_example open_example client_example)))
     = [[1, 0, 0, 0, 0, 0, 0, 0, 7]] \<and>
   outbox (snd (snd (dunder_iter wire_example open_example client_example)))
     = [[2, 0, 0, 0, 0, 0, 0, 0, 7]] \<and>
   outbox (snd (snd (close wire_example open_example client_example)))
     = [[3, 0, 0, 0, 0, 0, 0, 0, 7]]"
proof -
  have o: "\<not> is_closed open_example" "priv_graph_loader_id open_example = Some 7"
    by (simp_all add: is_closed_def open_example_def)
  have b: "fixed_bytes wire_example 8 7 = [0, 0, 0, 0, 0, 0, 0, 7]"
    by code_simp
  have c: "connected client_example" "outbox client_example = []"
    by (simp_all add: client_example_def)
  have v: "request_value wire_example GRAPH_LOADER_NEXT = 1"
    "request_value wire_example GRAPH_LOADER_BEGIN = 2"
    "request_value wire_example GRAPH_LOADER_CLOSE = 3"
    by (simp_all add: wire_example_def)
  show ?thesis
    using session_request_layout [OF o _ _ c(1), of wire_example]
    by (simp add: b c v)
qed

text \<open>
  C8. A constructor given \<^verbatim>\<open>batch_size < 1\<close> or an empty \<^verbatim>\<open>num_neighbors\<close>, the
  sampling constructor given \<^verbatim>\<open>num_seeds < 1\<close>, and the training constructor given an
  empty \<^verbatim>\<open>seed_ids\<close>, raise \<^verbatim>\<open>ValueError\<close> with the client untouched: no message has
  been sent.
\<close>

theorem validation_before_io:
  "(bs < 1 \<or> nn = [] \<longrightarrow>
      EvalGraphLoader_init P c name bs nn =
        (Inl (ValueError (if bs < 1 then ''batch_size must be a positive integer''
                          else ''num_neighbors must be non-empty'')), c)) \<and>
   (ns < 1 \<or> bs < 1 \<or> nn = [] \<longrightarrow>
      SamplingGraphLoader_init P c name bs nn ns =
        (Inl (ValueError (if ns < 1 then ''num_seeds must be a positive integer''
                          else if bs < 1 then ''batch_size must be a positive integer''
                          else ''num_neighbors must be non-empty'')), c)) \<and>
   (bs < 1 \<or> nn = [] \<or> sids = [] \<longrightarrow>
      TrainGraphLoader_init P c name bs nn sids =
        (Inl (ValueError (if bs < 1 then ''batch_size must be a positive integer''
                          else if nn = [] then ''num_neighbors must be non-empty''
                          else ''seed_ids must be non-empty'')), c))"
  by (simp add: EvalGraphLoader_init_def SamplingGraphLoader_init_def
      TrainGraphLoader_init_def GraphLoader_init_def)

theorem validation_before_io_witness:
  "EvalGraphLoader_init wire_example client_example [0x41] 0 [] =
     (Inl (ValueError ''batch_size must be a positive integer''), client_example) \<and>
   SamplingGraphLoader_init wire_example client_example [0x41] 0 [] 0 =
     (Inl (ValueError ''num_seeds must be a positive integer''), client_example) \<and>
   TrainGraphLoader_init wire_example client_example [0x41] 0 [] [] =
     (Inl (ValueError ''batch_size must be a positive integer''), client_example)"
  using validation_before_io [of 0 "[]" wire_example client_example "[0x41]" 0 "[]"]
  by simp

text \<open>
  C9. The reply to \<^verbatim>\<open>__next__\<close> is dispatched on its status: \<^verbatim>\<open>END_OF_ITERATION\<close>
  gives \<^verbatim>\<open>StopIteration\<close>, normal completion gives what the decoding of the payload
  gives, and any other status gives the failure that carries the status code, with no
  decoding. \<^verbatim>\<open>__next__\<close> itself tests for \<^verbatim>\<open>END_OF_ITERATION\<close> only; the third case is
  the receive's.
\<close>

theorem next_status_dispatch:
  assumes "\<not> is_closed self"
    and "priv_graph_loader_id self = Some gid" and "0 \<le> gid" and "gid < 2 ^ 64"
    and "connected c" and "inbox c = (data, code) # rest"
  shows "dunder_next P self c =
           (if code = END_OF_ITERATION then Inl StopIteration
            else if code = NORMAL_COMPLETION then decode_graph P data
            else Inl (ServerError code),
            self,
            c\<lparr>outbox := outbox c @ [request_value P GRAPH_LOADER_NEXT # fixed_bytes P 8 gid],
              inbox := rest\<rparr>)"
  using assms by (rule dunder_next_reply)

theorem next_status_dispatch_witness:
  "dunder_next wire_example open_example
     (client_example\<lparr>inbox := [([], END_OF_ITERATION)]\<rparr>)
   = (Inl StopIteration, open_example,
      client_example\<lparr>outbox := [[1, 0, 0, 0, 0, 0, 0, 0, 7]], inbox := []\<rparr>) \<and>
   dunder_next wire_example open_example
     (client_example\<lparr>inbox := [(empty_batch_payload, NORMAL_COMPLETION)]\<rparr>)
   = (Inr empty_batch, open_example,
      client_example\<lparr>outbox := [[1, 0, 0, 0, 0, 0, 0, 0, 7]], inbox := []\<rparr>) \<and>
   dunder_next wire_example open_example
     (client_example\<lparr>inbox := [(empty_batch_payload, SERVER_DEFINED 9)]\<rparr>)
   = (Inl (ServerError (SERVER_DEFINED 9)), open_example,
      client_example\<lparr>outbox := [[1, 0, 0, 0, 0, 0, 0, 0, 7]], inbox := []\<rparr>)"
proof -
  have o: "\<not> is_closed open_example" "priv_graph_loader_id open_example = Some 7"
    by (simp_all add: is_closed_def open_example_def)
  have b: "fixed_bytes wire_example 8 7 = [0, 0, 0, 0, 0, 0, 0, 7]"
    by code_simp
  have d: "decode_graph wire_example empty_batch_payload = Inr empty_batch"
    by code_simp
  have c: "connected (client_example\<lparr>inbox := x\<rparr>)" "outbox (client_example\<lparr>inbox := x\<rparr>) = []" for x
    by (simp_all add: client_example_def)
  have v: "request_value wire_example GRAPH_LOADER_NEXT = 1"
    by (simp add: wire_example_def)
  have 1: ?thesis
    using
      next_status_dispatch [OF o, of "client_example\<lparr>inbox := [([], END_OF_ITERATION)]\<rparr>"
        "[]" END_OF_ITERATION "[]" wire_example]
      next_status_dispatch [OF o, of "client_example\<lparr>inbox := [(empty_batch_payload, NORMAL_COMPLETION)]\<rparr>"
        "empty_batch_payload" NORMAL_COMPLETION "[]" wire_example]
      next_status_dispatch [OF o, of "client_example\<lparr>inbox := [(empty_batch_payload, SERVER_DEFINED 9)]\<rparr>"
        "empty_batch_payload" "SERVER_DEFINED 9" "[]" wire_example]
    by (simp add: b c d v)
  then show ?thesis .
qed

text \<open>
  C10. The base constructor leaves the loader closed, with no identifier and no size.
  After \<^verbatim>\<open>_new\<close> of any of the three loaders, the loader is closed exactly when
  \<^verbatim>\<open>_new\<close> raised, and then \<^verbatim>\<open>close\<close> returns without sending anything.
\<close>

theorem failed_creation_leaves_closed:
  "GraphLoader_init name bs nn = Inr base \<longrightarrow>
     is_closed base \<and> priv_graph_loader_id base = None \<and> priv_size base = None \<and>
     (EvalGraphLoader_new P base c = (r, ev, c') \<longrightarrow>
        is_closed ev = isl r \<and> (isl r \<longrightarrow> close P ev c' = (Inr (), ev, c'))) \<and>
     (SamplingGraphLoader_new P (GraphLoader.extend base (SamplingGraphLoader.fields ns)) c
        = (r, sa, c') \<longrightarrow>
        is_closed sa = isl r \<and> (isl r \<longrightarrow> close P sa c' = (Inr (), sa, c'))) \<and>
     (TrainGraphLoader_new P (GraphLoader.extend base (TrainGraphLoader.fields sids)) c
        = (r, tr, c') \<longrightarrow>
        is_closed tr = isl r \<and> (isl r \<longrightarrow> close P tr c' = (Inr (), tr, c')))"
proof
  assume i: "GraphLoader_init name bs nn = Inr base"
  then have b: "priv_graph_loader_id base = None \<and> priv_size base = None \<and> priv_closed base"
    by (rule GraphLoader_init_closed)
  then have s: "priv_closed (GraphLoader.extend base (SamplingGraphLoader.fields ns))"
    and t: "priv_closed (GraphLoader.extend base (TrainGraphLoader.fields sids))"
    by (simp_all add: GraphLoader.defs)
  show "is_closed base \<and> priv_graph_loader_id base = None \<and> priv_size base = None \<and>
     (EvalGraphLoader_new P base c = (r, ev, c') \<longrightarrow>
        is_closed ev = isl r \<and> (isl r \<longrightarrow> close P ev c' = (Inr (), ev, c'))) \<and>
     (SamplingGraphLoader_new P (GraphLoader.extend base (SamplingGraphLoader.fields ns)) c
        = (r, sa, c') \<longrightarrow>
        is_closed sa = isl r \<and> (isl r \<longrightarrow> close P sa c' = (Inr (), sa, c'))) \<and>
     (TrainGraphLoader_new P (GraphLoader.extend base (TrainGraphLoader.fields sids)) c
        = (r, tr, c') \<longrightarrow>
        is_closed tr = isl r \<and> (isl r \<longrightarrow> close P tr c' = (Inr (), tr, c')))"
    using b new_failed_noop [of base P "EvalGraphLoader_msg P base" c r ev c']
      new_failed_noop [OF s, of P _ c r sa c'] new_failed_noop [OF t, of P _ c r tr c']
    unfolding EvalGraphLoader_new_def SamplingGraphLoader_new_def TrainGraphLoader_new_def
      is_closed_def
    by blast
qed

theorem failed_creation_leaves_closed_witness:
  "is_closed (closed_example\<lparr>priv_graph_loader_id := Some 7\<rparr>) \<and>
   close wire_example (closed_example\<lparr>priv_graph_loader_id := Some 7\<rparr>)
     (half_reply_client\<lparr>outbox := [eval_request_example], inbox := []\<rparr>)
   = (Inr (), closed_example\<lparr>priv_graph_loader_id := Some 7\<rparr>,
      half_reply_client\<lparr>outbox := [eval_request_example], inbox := []\<rparr>) \<and>
   is_closed (GraphLoader.extend closed_example (SamplingGraphLoader.fields 3)) \<and>
   close wire_example (GraphLoader.extend closed_example (SamplingGraphLoader.fields 3))
     (client_example\<lparr>connected := False\<rparr>)
   = (Inr (), GraphLoader.extend closed_example (SamplingGraphLoader.fields 3),
      client_example\<lparr>connected := False\<rparr>) \<and>
   is_closed (GraphLoader.extend closed_example (TrainGraphLoader.fields [10, 11])) \<and>
   close wire_example (GraphLoader.extend closed_example (TrainGraphLoader.fields [10, 11]))
     (client_example\<lparr>connected := False\<rparr>)
   = (Inr (), GraphLoader.extend closed_example (TrainGraphLoader.fields [10, 11]),
      client_example\<lparr>connected := False\<rparr>)"
proof -
  note T = failed_creation_leaves_closed [rule_format, OF base_example]
  have 1: "is_closed (closed_example\<lparr>priv_graph_loader_id := Some 7\<rparr>) \<and>
   close wire_example (closed_example\<lparr>priv_graph_loader_id := Some 7\<rparr>)
     (half_reply_client\<lparr>outbox := [eval_request_example], inbox := []\<rparr>)
   = (Inr (), closed_example\<lparr>priv_graph_loader_id := Some 7\<rparr>,
      half_reply_client\<lparr>outbox := [eval_request_example], inbox := []\<rparr>)"
    using T [THEN conjunct2, THEN conjunct2, THEN conjunct2, THEN conjunct1, rule_format,
        OF eval_new_half_reply]
    by simp
  have 2: "is_closed (GraphLoader.extend closed_example (SamplingGraphLoader.fields 3)) \<and>
   close wire_example (GraphLoader.extend closed_example (SamplingGraphLoader.fields 3))
     (client_example\<lparr>connected := False\<rparr>)
   = (Inr (), GraphLoader.extend closed_example (SamplingGraphLoader.fields 3),
      client_example\<lparr>connected := False\<rparr>)"
    using T [THEN conjunct2, THEN conjunct2, THEN conjunct2, THEN conjunct2, THEN conjunct1,
        rule_format, OF sampling_new_disconnected]
    by simp
  have 3: "is_closed (GraphLoader.extend closed_example (TrainGraphLoader.fields [10, 11])) \<and>
   close wire_example (GraphLoader.extend closed_example (TrainGraphLoader.fields [10, 11]))
     (client_example\<lparr>connected := False\<rparr>)
   = (Inr (), GraphLoader.extend closed_example (TrainGraphLoader.fields [10, 11]),
      client_example\<lparr>connected := False\<rparr>)"
    using T [THEN conjunct2, THEN conjunct2, THEN conjunct2, THEN conjunct2, THEN conjunct2,
        rule_format, OF train_new_disconnected]
    by simp
  from 1 2 3 show ?thesis by simp
qed

end
